theory Spec2Isabelle
  imports Main "HOL-Library.AList"
begin

section \<open>Values, rows and the store\<close>

text \<open>
  The controllers of \<open>inscriptionController.js\<close> run against a PostgreSQL database through
  Sequelize. The store is modelled as the data the statements of the controllers read and
  write: every table has its catalogue columns (what \<open>information_schema.columns\<close> reports,
  in declaration order), its key constraints (what \<open>information_schema.key_column_usage\<close>
  joined with \<open>constraint_column_usage\<close> reports) and its rows. A statement fails, as the
  engine's exception does, when it names a table or a column that does not exist, and when
  it drops a table or a column that a foreign key of another table references. The checks
  the engine makes on row data (uniqueness, \<open>NOT NULL\<close>, referential integrity, lengths)
  are a parameter of the statements that write rows, and how it reads a value by the type
  of a column is modelled where it is certain. Names longer than the engine's 63 bytes are
  truncated by it and are outside the model as well.
\<close>

datatype val = VNull | VInt int | VStr string | VBool bool

type_synonym row = "(string \<times> val) list"

datatype action = Cascade | SetNull | NoAction

datatype ckind = PrimaryKey | UniqueKey | ForeignKey action action

record key_use =
  k_kind :: ckind
  k_column :: string
  k_ref_table :: string
  k_ref_column :: string

record column =
  col_name :: string
  col_type :: string
  col_nullable :: bool
  col_default :: "string option"

record tbl =
  t_cols :: "column list"
  t_keys :: "key_use list"
  t_rows :: "row list"
  t_seq :: int

type_synonym db = "(string \<times> tbl) list"

text \<open>
  Where the outcome depends on the engine's version, on the platform or on a statement
  other than the one the controller means to run, the model leaves it unspecified.
\<close>

definition engine_dependent :: "'a" where
  "engine_dependent = undefined"

text \<open>The error taxonomy of the controllers, and the HTTP status each one is sent with.\<close>

datatype err =
    InvalidName | MissingField | InvalidFieldType | NotFound | NotEmpty
  | ColumnHasData | ColumnHasForeignKey | RelatedRecordNotFound | NoValidFields
  | UnsupportedOperation | InternalError

fun status :: "err \<Rightarrow> nat" where
  "status NotFound = 404"
| "status InternalError = 500"
| "status _ = 400"

subsection \<open>Strings\<close>

text \<open>
  A string is kept as the bytes of its UTF-8 encoding. Letter case is mapped on the ASCII
  letters only, which is what JavaScript and the engine do on ASCII strings; on other
  strings their case mappings differ from these.
\<close>

definition ascii :: "string \<Rightarrow> bool" where
  "ascii s = list_all (\<lambda>c. (of_char c :: nat) < 128) s"

definition toUpperCase :: "string \<Rightarrow> string" where
  "toUpperCase = map (\<lambda>c. if (97::nat) \<le> of_char c \<and> of_char c \<le> (122::nat)
                           then char_of (of_char c - (32::nat)) else c)"

definition toLowerCase :: "string \<Rightarrow> string" where
  "toLowerCase = map (\<lambda>c. if (65::nat) \<le> of_char c \<and> of_char c \<le> (90::nat)
                           then char_of (of_char c + (32::nat)) else c)"

definition startsWith :: "string \<Rightarrow> string \<Rightarrow> bool" where
  "startsWith s p = (take (length p) s = p)"

definition allowed_prefix :: "string \<Rightarrow> bool" where
  "allowed_prefix table_name =
     (startsWith table_name ''inscription_'' \<or>
      startsWith table_name ''provider_'' \<or>
      startsWith table_name ''pi_'')"

text \<open>SQL \<open>LIKE\<close>: \<open>%\<close> matches any run of characters, \<open>_\<close> exactly one.\<close>

fun sql_like :: "string \<Rightarrow> string \<Rightarrow> bool" where
  "sql_like [] s = (s = [])"
| "sql_like (p # ps) s =
     (if p = CHR ''%'' then list_ex (\<lambda>k. sql_like ps (drop k s)) [0..<Suc (length s)]
      else (case s of [] \<Rightarrow> False
            | c # cs \<Rightarrow> (p = CHR ''_'' \<or> p = c) \<and> sql_like ps cs))"

subsection \<open>Catalogue and row helpers\<close>

definition col_names :: "tbl \<Rightarrow> string list" where
  "col_names t = map col_name (t_cols t)"

definition has_column :: "tbl \<Rightarrow> string \<Rightarrow> bool" where
  "has_column t c = (c \<in> set (col_names t))"

definition cell :: "row \<Rightarrow> string \<Rightarrow> val" where
  "cell r c = (case map_of r c of None \<Rightarrow> VNull | Some v \<Rightarrow> v)"

text \<open>\<open>SELECT COUNT(*) FROM t WHERE c IS NOT NULL\<close>.\<close>

definition count_not_null :: "tbl \<Rightarrow> string \<Rightarrow> nat" where
  "count_not_null t c = length (filter (\<lambda>r. cell r c \<noteq> VNull) (t_rows t))"

section \<open>Schema mutation engine\<close>

subsection \<open>deleteTable\<close>

text \<open>
  \<open>deleteTable\<close> makes no check on the name. It counts the rows with
  \<open>SELECT COUNT(*) as count FROM ${table_name}\<close>, where the name stands unquoted: the engine
  reads a plain identifier there and folds it to lower case, so the count is that of the
  table with the folded name, and it throws (status 500) when there is none. What the
  engine makes of a text that is not a plain identifier (a key word, a quoted or a
  qualified name, several words) is another statement.
\<close>

definition key_words :: "string list" where
  "key_words =
     [''all'', ''analyse'', ''analyze'', ''and'', ''any'', ''array'', ''as'', ''asc'',
      ''asymmetric'', ''authorization'', ''between'', ''bigint'', ''binary'', ''bit'',
      ''boolean'', ''both'', ''case'', ''cast'', ''char'', ''character'', ''check'',
      ''coalesce'', ''collate'', ''collation'', ''column'', ''concurrently'',
      ''constraint'', ''create'', ''cross'', ''current_catalog'', ''current_date'',
      ''current_role'', ''current_schema'', ''current_time'', ''current_timestamp'',
      ''current_user'', ''dec'', ''decimal'', ''default'', ''deferrable'', ''desc'',
      ''distinct'', ''do'', ''else'', ''end'', ''except'', ''exists'', ''extract'',
      ''false'', ''fetch'', ''float'', ''for'', ''foreign'', ''freeze'', ''from'', ''full'',
      ''grant'', ''greatest'', ''group'', ''grouping'', ''having'', ''ilike'', ''in'',
      ''initially'', ''inner'', ''inout'', ''int'', ''integer'', ''intersect'',
      ''interval'', ''into'', ''is'', ''isnull'', ''join'', ''json'', ''lateral'',
      ''leading'', ''least'', ''left'', ''like'', ''limit'', ''localtime'',
      ''localtimestamp'', ''national'', ''natural'', ''nchar'', ''none'', ''normalize'',
      ''not'', ''notnull'', ''null'', ''nullif'', ''numeric'', ''offset'', ''on'', ''only'',
      ''or'', ''order'', ''out'', ''outer'', ''overlaps'', ''overlay'', ''placing'',
      ''position'', ''precision'', ''primary'', ''real'', ''references'', ''returning'',
      ''right'', ''row'', ''select'', ''session_user'', ''setof'', ''similar'',
      ''smallint'', ''some'', ''substring'', ''symmetric'', ''system_user'', ''table'',
      ''tablesample'', ''then'', ''time'', ''timestamp'', ''to'', ''trailing'', ''treat'',
      ''trim'', ''true'', ''union'', ''unique'', ''user'', ''using'', ''values'',
      ''varchar'', ''variadic'', ''verbose'', ''when'', ''where'', ''window'', ''with'',
      ''xml'']"

definition ident_start :: "char \<Rightarrow> bool" where
  "ident_start c =
     (let n = (of_char c :: nat)
      in (97 \<le> n \<and> n \<le> 122) \<or> (65 \<le> n \<and> n \<le> 90) \<or> n = 95)"

definition ident_part :: "char \<Rightarrow> bool" where
  "ident_part c =
     (let n = (of_char c :: nat)
      in ident_start c \<or> (48 \<le> n \<and> n \<le> 57))"

definition plain_identifier :: "string \<Rightarrow> bool" where
  "plain_identifier s =
     (s \<noteq> [] \<and> length s \<le> 63 \<and> ident_start (hd s) \<and> list_all ident_part s
      \<and> toLowerCase s \<notin> set key_words)"

text \<open>
  Elsewhere the controllers put names between double quotes, or between single quotes in
  catalogue queries, by string interpolation. A name made of letters, digits and underscores
  stands there for itself; a name that holds a quote or a colon would change the statement.
\<close>

definition simple_identifier :: "string \<Rightarrow> bool" where
  "simple_identifier s = (s \<noteq> [] \<and> length s \<le> 63 \<and> list_all ident_part s)"

text \<open>
  The drop goes through the query interface, which quotes the name:
  \<open>DROP TABLE IF EXISTS "t"\<close>, without \<open>CASCADE\<close>. It removes the table with exactly that
  name, does nothing when there is none, and throws when a foreign key of another table
  references the table.
\<close>

definition is_foreign_key :: "key_use \<Rightarrow> bool" where
  "is_foreign_key k = (case k_kind k of ForeignKey _ _ \<Rightarrow> True | _ \<Rightarrow> False)"

definition referenced_by_other :: "db \<Rightarrow> string \<Rightarrow> bool" where
  "referenced_by_other d table_name =
     list_ex (\<lambda>nt. fst nt \<noteq> table_name
                  \<and> list_ex (\<lambda>k. is_foreign_key k \<and> k_ref_table k = table_name)
                       (t_keys (snd nt))) d"

definition dropTable :: "db \<Rightarrow> string \<Rightarrow> db option" where
  "dropTable d table_name =
     (if map_of d table_name \<noteq> None \<and> referenced_by_other d table_name then None
      else Some (AList.delete table_name d))"

definition deleteTable :: "db \<Rightarrow> string \<Rightarrow> (err + unit) \<times> db" where
  "deleteTable d table_name =
     (if plain_identifier table_name then
        (case map_of d (toLowerCase table_name) of
           None \<Rightarrow> (Inl InternalError, d)
         | Some t \<Rightarrow>
             let recordCount = length (t_rows t) in
             if recordCount > 0 then (Inl NotEmpty, d)
             else
               (case dropTable d table_name of
                  None \<Rightarrow> (Inl InternalError, d)
                | Some d' \<Rightarrow> (Inr (), d')))
      else engine_dependent)"

subsection \<open>listTables\<close>

text \<open>
  Modelled from the spec: the model \<open>TablesMetadata\<close> (\<open>models/TablesMetadata.js\<close>) is the
  Table Registry, rows \<open>{table_name, is_primary}\<close> with \<open>table_name\<close> unique; a row created
  without \<open>is_primary\<close> is not primary, and creating a second row for a name throws.
\<close>

type_synonym registry = "(string \<times> bool) list"

definition TablesMetadata_create :: "registry \<Rightarrow> string \<Rightarrow> registry option" where
  "TablesMetadata_create reg table_name =
     (if table_name \<in> fst ` set reg then None else Some (reg @ [(table_name, False)]))"

definition listTables ::
  "db \<Rightarrow> registry \<Rightarrow> string option \<Rightarrow> string option \<Rightarrow> err + (string \<times> bool) list" where
  "listTables d metadata tableType isPrimary =
     (let tablePrefix =
            (if tableType = Some ''provider'' then ''provider_%''
             else if tableType = Some ''pi'' then ''pi_%''
             else ''inscription_%'');
          tables = filter (sql_like tablePrefix) (map fst d);
          tableList = map (\<lambda>n. (n, case find (\<lambda>m. fst m = n) metadata of
                                      Some m \<Rightarrow> snd m | None \<Rightarrow> False)) tables;
          tableList' = (if isPrimary = Some ''true'' then filter snd tableList else tableList)
      in if length tableList' = 0 then Inl NotFound else Inr tableList')"

definition listed :: "err + (string \<times> bool) list \<Rightarrow> string set" where
  "listed r = (case r of Inl _ \<Rightarrow> {} | Inr l \<Rightarrow> fst ` set l)"


subsection \<open>createTable\<close>

text \<open>
  The body of a \<open>createTable\<close> or \<open>editTable\<close> request lists fields; every property may
  be absent (\<open>None\<close>). JavaScript's \<open>!s\<close> holds of an absent and of an empty string.
\<close>

record field =
  f_name :: "string option"
  f_type :: "string option"
  f_allow_null :: "bool option"
  f_relatedTable :: "string option"
  f_relatedColumn :: "string option"

definition falsy :: "string option \<Rightarrow> bool" where
  "falsy s = (s = None \<or> s = Some [])"

text \<open>
  \<open>String.prototype.trim\<close> removes white space and line terminators from both ends:
  U+0009 to U+000D, U+0020, U+00A0, U+1680, U+2000 to U+200A, U+2028, U+2029, U+202F,
  U+205F, U+3000 and U+FEFF, here in their UTF-8 encodings.
\<close>

definition is_space :: "string list" where
  "is_space =
     [[CHR 0x09], [CHR 0x0A], [CHR 0x0B], [CHR 0x0C], [CHR 0x0D], [CHR 0x20],
      [CHR 0xC2, CHR 0xA0], [CHR 0xE1, CHR 0x9A, CHR 0x80],
      [CHR 0xE2, CHR 0x80, CHR 0x80], [CHR 0xE2, CHR 0x80, CHR 0x81],
      [CHR 0xE2, CHR 0x80, CHR 0x82], [CHR 0xE2, CHR 0x80, CHR 0x83],
      [CHR 0xE2, CHR 0x80, CHR 0x84], [CHR 0xE2, CHR 0x80, CHR 0x85],
      [CHR 0xE2, CHR 0x80, CHR 0x86], [CHR 0xE2, CHR 0x80, CHR 0x87],
      [CHR 0xE2, CHR 0x80, CHR 0x88], [CHR 0xE2, CHR 0x80, CHR 0x89],
      [CHR 0xE2, CHR 0x80, CHR 0x8A], [CHR 0xE2, CHR 0x80, CHR 0xA8],
      [CHR 0xE2, CHR 0x80, CHR 0xA9], [CHR 0xE2, CHR 0x80, CHR 0xAF],
      [CHR 0xE2, CHR 0x81, CHR 0x9F], [CHR 0xE3, CHR 0x80, CHR 0x80],
      [CHR 0xEF, CHR 0xBB, CHR 0xBF]]"

fun strip :: "string list \<Rightarrow> string \<Rightarrow> string" where
  "strip ws [] = []"
| "strip ws (c # cs) =
     (case find (\<lambda>w. w \<noteq> [] \<and> take (length w) (c # cs) = w) ws of
        None \<Rightarrow> c # cs
      | Some w \<Rightarrow> strip ws (drop (length w - 1) cs))"

definition trim :: "string \<Rightarrow> string" where
  "trim s = rev (strip (map rev is_space) (rev (strip is_space s)))"

definition no_name :: "string option \<Rightarrow> bool" where
  "no_name n = (case n of None \<Rightarrow> True | Some s \<Rightarrow> s = [] \<or> trim s = [])"

text \<open>
  The Sequelize types the controllers use. \<open>validTypes[field.type]\<close> is a property read on
  an object literal, so besides the seven keys of the literal it finds what every object
  inherits from \<open>Object.prototype\<close>; such a value is truthy but no data type
  (\<open>Inherited\<close>), and the query interface throws on it.
\<close>

datatype seqtype = STRING | TEXT | INTEGER | DECIMAL | BOOLEAN | DATE | Inherited

definition object_prototype_keys :: "string list" where
  "object_prototype_keys =
     [''constructor'', ''__defineGetter__'', ''__defineSetter__'', ''hasOwnProperty'',
      ''__lookupGetter__'', ''__lookupSetter__'', ''isPrototypeOf'',
      ''propertyIsEnumerable'', ''toString'', ''valueOf'', ''__proto__'',
      ''toLocaleString'']"

definition validTypes_create :: "string option \<Rightarrow> seqtype option" where
  "validTypes_create ty =
     (case ty of None \<Rightarrow> None
      | Some k \<Rightarrow>
          if k = ''VARCHAR(255)'' then Some STRING
          else if k = ''TEXT'' then Some TEXT
          else if k = ''INTEGER'' then Some INTEGER
          else if k = ''DECIMAL'' then Some DECIMAL
          else if k = ''BOOLEAN'' then Some BOOLEAN
          else if k = ''DATE'' then Some DATE
          else if k = ''FOREIGN_KEY'' then Some INTEGER
          else if k \<in> set object_prototype_keys then Some Inherited
          else None)"

text \<open>A Sequelize attribute definition, as the controllers write them.\<close>

record attr =
  a_type :: seqtype
  a_allowNull :: bool
  a_primaryKey :: bool
  a_autoIncrement :: bool
  a_references :: "(string \<times> string) option"
  a_onUpdate :: action
  a_onDelete :: action

definition id_attr :: attr where
  "id_attr = \<lparr>a_type = INTEGER, a_allowNull = False, a_primaryKey = True,
             a_autoIncrement = True, a_references = None,
             a_onUpdate = NoAction, a_onDelete = NoAction\<rparr>"

definition plain_attr :: "seqtype \<Rightarrow> bool \<Rightarrow> attr" where
  "plain_attr ty allowNull =
     \<lparr>a_type = ty, a_allowNull = allowNull, a_primaryKey = False,
      a_autoIncrement = False, a_references = None,
      a_onUpdate = NoAction, a_onDelete = NoAction\<rparr>"

definition fk_attr :: "bool \<Rightarrow> string \<Rightarrow> string \<Rightarrow> attr" where
  "fk_attr allowNull model key =
     \<lparr>a_type = INTEGER, a_allowNull = allowNull, a_primaryKey = False,
      a_autoIncrement = False, a_references = Some (model, key),
      a_onUpdate = Cascade, a_onDelete = SetNull\<rparr>"

text \<open>
  \<open>columns[field.name] = ...\<close> on the object \<open>columns\<close>: an existing key keeps its place
  and takes the new value, a new key goes last, and the key \<open>__proto__\<close> sets the prototype
  and adds no property. (JavaScript lists keys that are canonical array indices first; that
  reordering is not modelled.)
\<close>

definition set_prop :: "(string \<times> 'a) list \<Rightarrow> string \<Rightarrow> 'a \<Rightarrow> (string \<times> 'a) list" where
  "set_prop obj k v = (if k = ''__proto__'' then obj else AList.update k v obj)"

fun create_columns ::
  "field list \<Rightarrow> (string \<times> attr) list \<Rightarrow> err + (string \<times> attr) list" where
  "create_columns [] columns = Inr columns"
| "create_columns (field # rest) columns =
     (if no_name (f_name field) then Inl MissingField
      else
        let allowNull = (f_allow_null field \<noteq> Some False) in
        if f_type field = Some ''FOREIGN_KEY'' then
          (if falsy (f_relatedTable field) then Inl MissingField
           else create_columns rest
                  (set_prop columns (the (f_name field))
                     (fk_attr allowNull (the (f_relatedTable field)) ''id'')))
        else
          (case validTypes_create (f_type field) of
             None \<Rightarrow> Inl InvalidFieldType
           | Some sequelizeType \<Rightarrow>
               create_columns rest
                 (set_prop columns (the (f_name field)) (plain_attr sequelizeType allowNull))))"

text \<open>
  What the PostgreSQL dialect makes of an attribute: the catalogue's \<open>data_type\<close> of each
  Sequelize type, a sequence default for an auto-increment column, a primary-key constraint
  and a foreign-key constraint with the attribute's actions.
\<close>

fun native_type :: "seqtype \<Rightarrow> string" where
  "native_type STRING = ''character varying''"
| "native_type TEXT = ''text''"
| "native_type INTEGER = ''integer''"
| "native_type DECIMAL = ''numeric''"
| "native_type BOOLEAN = ''boolean''"
| "native_type DATE = ''timestamp with time zone''"
| "native_type Inherited = ''[object Object]''"

definition attr_column :: "string \<Rightarrow> string \<times> attr \<Rightarrow> column" where
  "attr_column table_name ka =
     \<lparr>col_name = fst ka,
      col_type = native_type (a_type (snd ka)),
      col_nullable = (a_allowNull (snd ka) \<and> \<not> a_primaryKey (snd ka)),
      col_default = (if a_autoIncrement (snd ka)
                     then Some (''nextval('' @ table_name @ ''_'' @ fst ka @ ''_seq)'')
                     else None)\<rparr>"

definition attr_keys :: "string \<Rightarrow> string \<times> attr \<Rightarrow> key_use list" where
  "attr_keys table_name ka =
     (if a_primaryKey (snd ka)
      then [\<lparr>k_kind = PrimaryKey, k_column = fst ka,
             k_ref_table = table_name, k_ref_column = fst ka\<rparr>]
      else []) @
     (case a_references (snd ka) of
        None \<Rightarrow> []
      | Some (model, key) \<Rightarrow>
          [\<lparr>k_kind = ForeignKey (a_onUpdate (snd ka)) (a_onDelete (snd ka)),
            k_column = fst ka, k_ref_table = model, k_ref_column = key\<rparr>])"

text \<open>
  A foreign key has to reference a column that exists and carries a primary or unique key:
  of another table of the store, or of the table being created.
\<close>

definition has_unique_key :: "tbl \<Rightarrow> string \<Rightarrow> bool" where
  "has_unique_key t c =
     list_ex (\<lambda>k. k_column k = c \<and> (k_kind k = PrimaryKey \<or> k_kind k = UniqueKey)) (t_keys t)"

definition references_ok :: "db \<Rightarrow> string \<Rightarrow> (string \<times> attr) list \<Rightarrow> string \<times> attr \<Rightarrow> bool" where
  "references_ok d table_name columns ka =
     (case a_references (snd ka) of
        None \<Rightarrow> True
      | Some (model, key) \<Rightarrow>
          if model = table_name
          then (case map_of columns key of None \<Rightarrow> False | Some a \<Rightarrow> a_primaryKey a)
          else (case map_of d model of
                  None \<Rightarrow> False
                | Some t \<Rightarrow> has_column t key \<and> has_unique_key t key))"

text \<open>
  \<open>queryInterface.createTable\<close> issues \<open>CREATE TABLE IF NOT EXISTS\<close>: it throws on a value
  that is no data type, leaves an existing table alone, and throws when a referenced table
  or column is missing or the column carries no key.
\<close>

definition qi_createTable :: "db \<Rightarrow> string \<Rightarrow> (string \<times> attr) list \<Rightarrow> db option" where
  "qi_createTable d table_name columns =
     (if list_ex (\<lambda>ka. a_type (snd ka) = Inherited) columns then None
      else if map_of d table_name \<noteq> None then Some d
      else if \<not> list_all (references_ok d table_name columns) columns then None
      else Some (d @ [(table_name,
                       \<lparr>t_cols = map (attr_column table_name) columns,
                        t_keys = concat (map (attr_keys table_name) columns),
                        t_rows = [], t_seq = 1\<rparr>)]))"

definition createTable ::
  "db \<Rightarrow> registry \<Rightarrow> string option \<Rightarrow> field list option \<Rightarrow> (err + unit) \<times> db \<times> registry" where
  "createTable d reg table_name fields' =
     (if falsy table_name \<or> fields' = None \<or> length (the fields') = 0
      then (Inl MissingField, d, reg)
      else if \<not> allowed_prefix (the table_name) then (Inl InvalidName, d, reg)
      else
        (case create_columns (the fields') [(''id'', id_attr)] of
           Inl e \<Rightarrow> (Inl e, d, reg)
         | Inr columns \<Rightarrow>
             (case qi_createTable d (the table_name) columns of
                None \<Rightarrow> (Inl InternalError, d, reg)
              | Some d' \<Rightarrow>
                  (case TablesMetadata_create reg (the table_name) of
                     None \<Rightarrow> (Inl InternalError, d', reg)
                   | Some reg' \<Rightarrow> (Inr (), d', reg')))))"


subsection \<open>editTable\<close>

definition validTypes_edit :: "string \<Rightarrow> seqtype option" where
  "validTypes_edit k =
     (if k = ''VARCHAR(255)'' then Some STRING
      else if k = ''CHARACTER VARYING'' then Some STRING
      else if k = ''TEXT'' then Some TEXT
      else if k = ''INTEGER'' then Some INTEGER
      else if k = ''DECIMAL'' then Some DECIMAL
      else if k = ''BOOLEAN'' then Some BOOLEAN
      else if k = ''DATE'' then Some DATE
      else if k = ''FOREIGN_KEY'' then Some INTEGER
      else None)"

text \<open>
  \<open>queryInterface.addColumn\<close> (\<open>ALTER TABLE ... ADD COLUMN\<close>) throws when the table is
  missing, when the column exists already, when the column is \<open>NOT NULL\<close> and the table has
  rows, or when the referenced table or column is missing or the column carries no key;
  the rows get \<open>NULL\<close> in the new column.
\<close>

definition add_reference_ok :: "db \<Rightarrow> attr \<Rightarrow> bool" where
  "add_reference_ok d a =
     (case a_references a of
        None \<Rightarrow> True
      | Some (model, key) \<Rightarrow>
          (case map_of d model of
             None \<Rightarrow> False
           | Some t \<Rightarrow> has_column t key \<and> has_unique_key t key))"

definition qi_addColumn :: "db \<Rightarrow> string \<Rightarrow> string \<Rightarrow> attr \<Rightarrow> db option" where
  "qi_addColumn d table_name name a =
     (case map_of d table_name of
        None \<Rightarrow> None
      | Some t \<Rightarrow>
          if has_column t name then None
          else if \<not> a_allowNull a \<and> t_rows t \<noteq> [] then None
          else if \<not> add_reference_ok d a then None
          else Some (AList.update table_name
                 (t\<lparr>t_cols := t_cols t @ [attr_column table_name (name, a)],
                    t_keys := t_keys t @ attr_keys table_name (name, a),
                    t_rows := map (\<lambda>r. AList.update name VNull r) (t_rows t)\<rparr>) d))"

text \<open>
  \<open>queryInterface.removeColumn\<close> (\<open>ALTER TABLE ... DROP COLUMN\<close>, without \<open>CASCADE\<close>)
  throws when the table or the column is missing and when a foreign key references the
  column; the column goes with its values and with the keys on it.
\<close>

definition column_referenced :: "db \<Rightarrow> string \<Rightarrow> string \<Rightarrow> bool" where
  "column_referenced d table_name columnName =
     list_ex (\<lambda>nt. list_ex (\<lambda>k. is_foreign_key k \<and> k_ref_table k = table_name
                                   \<and> k_ref_column k = columnName)
                       (t_keys (snd nt))) d"

definition qi_removeColumn :: "db \<Rightarrow> string \<Rightarrow> string \<Rightarrow> db option" where
  "qi_removeColumn d table_name columnName =
     (case map_of d table_name of
        None \<Rightarrow> None
      | Some t \<Rightarrow>
          if has_column t columnName \<and> \<not> column_referenced d table_name columnName
          then Some (AList.update table_name
                 (t\<lparr>t_cols := filter (\<lambda>c. col_name c \<noteq> columnName) (t_cols t),
                    t_keys := filter (\<lambda>k. k_column k \<noteq> columnName) (t_keys t),
                    t_rows := map (AList.delete columnName) (t_rows t)\<rparr>) d)
          else None)"

text \<open>
  The loop over \<open>fieldsToAdd\<close>. Each column is added by a statement of its own, so a
  failure leaves the columns added before it. \<open>field.type.toUpperCase()\<close> throws on an
  absent type.
\<close>

fun add_columns :: "db \<Rightarrow> string \<Rightarrow> field list \<Rightarrow> (err + unit) \<times> db" where
  "add_columns d table_name [] = (Inr (), d)"
| "add_columns d table_name (field # rest) =
     (if no_name (f_name field) then (Inl MissingField, d)
      else
        let allowNull = (f_allow_null field \<noteq> Some False) in
        (case f_type field of
           None \<Rightarrow> (Inl InternalError, d)
         | Some ty \<Rightarrow>
             if toUpperCase ty = ''FOREIGN_KEY'' then
               (if falsy (f_relatedTable field) \<or> falsy (f_relatedColumn field)
                then (Inl MissingField, d)
                else
                  (case qi_addColumn d table_name (the (f_name field))
                          (fk_attr allowNull (the (f_relatedTable field))
                             (the (f_relatedColumn field))) of
                     None \<Rightarrow> (Inl InternalError, d)
                   | Some d' \<Rightarrow> add_columns d' table_name rest))
             else
               (case validTypes_edit (toUpperCase ty) of
                  None \<Rightarrow> (Inl InvalidFieldType, d)
                | Some sequelizeType \<Rightarrow>
                    (case qi_addColumn d table_name (the (f_name field))
                            (plain_attr sequelizeType allowNull) of
                       None \<Rightarrow> (Inl InternalError, d)
                     | Some d' \<Rightarrow> add_columns d' table_name rest))))"

text \<open>
  The loop over \<open>fieldsToDelete\<close>: the count of non-null values first, then the rows of
  \<open>key_column_usage\<close> for the column, then the drop. The count throws on a missing table
  or column.
\<close>

definition key_column_usage :: "tbl \<Rightarrow> string \<Rightarrow> key_use list" where
  "key_column_usage t columnName = filter (\<lambda>k. k_column k = columnName) (t_keys t)"

fun delete_columns :: "db \<Rightarrow> string \<Rightarrow> string list \<Rightarrow> (err + unit) \<times> db" where
  "delete_columns d table_name [] = (Inr (), d)"
| "delete_columns d table_name (columnName # rest) =
     (case map_of d table_name of
        None \<Rightarrow> (Inl InternalError, d)
      | Some t \<Rightarrow>
          if \<not> has_column t columnName then (Inl InternalError, d)
          else if count_not_null t columnName > 0 then (Inl ColumnHasData, d)
          else
            let foreignKeys = key_column_usage t columnName in
            if length foreignKeys > 0 then (Inl ColumnHasForeignKey, d)
            else
              (case qi_removeColumn d table_name columnName of
                 None \<Rightarrow> (Inl InternalError, d)
               | Some d' \<Rightarrow> delete_columns d' table_name rest))"

record edit_body =
  fieldsToAdd :: "field list option"
  fieldsToDelete :: "string list option"
  fieldsToEdit :: "field list option"

definition nonempty :: "'a list option \<Rightarrow> bool" where
  "nonempty l = (case l of None \<Rightarrow> False | Some xs \<Rightarrow> length xs > 0)"

definition editTable :: "db \<Rightarrow> string \<Rightarrow> edit_body \<Rightarrow> (err + unit) \<times> db" where
  "editTable d table_name body =
     (if nonempty (fieldsToEdit body) then (Inl UnsupportedOperation, d)
      else
        (case (if nonempty (fieldsToAdd body)
               then add_columns d table_name (the (fieldsToAdd body))
               else (Inr (), d)) of
           (Inl e, d') \<Rightarrow> (Inl e, d')
         | (Inr _, d') \<Rightarrow>
             if nonempty (fieldsToDelete body)
             then delete_columns d' table_name (the (fieldsToDelete body))
             else (Inr (), d')))"


section \<open>Record accessor\<close>

subsection \<open>Catalogue queries and statements\<close>

text \<open>
  The column query of the record controllers compares \<open>LOWER(table_name)\<close> and names no
  schema: it returns the columns of every table whose name equals the requested one up to
  letter case. \<open>LOWER\<close> folds the ASCII letters; what it does with other letters depends on
  the locale of the database. The other query asks for the exact name.
\<close>

definition columns_ci :: "db \<Rightarrow> string \<Rightarrow> column list" where
  "columns_ci d table_name =
     (if list_all (\<lambda>nt. ascii (fst nt)) d \<and> ascii table_name then
        concat (map (\<lambda>nt. if toLowerCase (fst nt) = toLowerCase table_name
                           then t_cols (snd nt) else []) d)
      else engine_dependent)"

definition columns_of :: "db \<Rightarrow> string \<Rightarrow> column list" where
  "columns_of d table_name = (case map_of d table_name of None \<Rightarrow> [] | Some t \<Rightarrow> t_cols t)"

text \<open>SQL equality: never true of \<open>NULL\<close>.\<close>

definition sql_eq :: "val \<Rightarrow> val \<Rightarrow> bool" where
  "sql_eq a b = (a \<noteq> VNull \<and> b \<noteq> VNull \<and> a = b)"

text \<open>JavaScript truthiness of a JSON value.\<close>

fun truthy :: "val \<Rightarrow> bool" where
  "truthy VNull = False"
| "truthy (VInt i) = (i \<noteq> 0)"
| "truthy (VStr s) = (s \<noteq> [])"
| "truthy (VBool b) = b"

text \<open>
  The filter of the update and upsert controllers: the keys of the body that are among the
  catalogue's column names and whose value is not \<open>null\<close> (a JSON body has no
  \<open>undefined\<close>). The body is a JSON object whose values are integers, texts, booleans or
  \<open>null\<close>. \<open>filteredData[key] = value\<close> with the key \<open>__proto__\<close> and such a value adds no
  property.
\<close>

definition filter_data :: "string list \<Rightarrow> (string \<times> val) list \<Rightarrow> (string \<times> val) list" where
  "filter_data fields' data =
     filter (\<lambda>kv. fst kv \<in> set fields' \<and> snd kv \<noteq> VNull \<and> fst kv \<noteq> ''__proto__'') data"

text \<open>
  The engine reads every value a statement hands to a column by the column's type, and
  what it reads is what it compares or stores. The model says what it reads where that is
  certain, that it refuses where that is certain, and nothing otherwise.

  An \<open>integer\<close> column reads a text made of an optional sign and decimal digits (up to nine
  of them surely fit) and refuses a text without a digit.
\<close>

datatype reading = Stored val | Refused | Unsure

fun stored :: "reading \<Rightarrow> val" where
  "stored (Stored v) = v"
| "stored Refused = VNull"
| "stored Unsure = VNull"

definition is_digit :: "char \<Rightarrow> bool" where
  "is_digit c = ((48::nat) \<le> of_char c \<and> of_char c \<le> (57::nat))"

definition integer_text :: "string \<Rightarrow> bool option" where
  "integer_text s =
     (let body = (if s \<noteq> [] \<and> (hd s = CHR ''-'' \<or> hd s = CHR ''+'') then tl s else s)
      in if body \<noteq> [] \<and> list_all is_digit body \<and> length body \<le> 9 then Some True
         else if list_ex is_digit s then None
         else Some False)"

definition int_of_text :: "string \<Rightarrow> int" where
  "int_of_text s =
     (let body = (if s \<noteq> [] \<and> (hd s = CHR ''-'' \<or> hd s = CHR ''+'') then tl s else s);
          n = foldl (\<lambda>a c. 10 * a + (int (of_char c) - 48)) 0 body
      in if s \<noteq> [] \<and> hd s = CHR ''-'' then - n else n)"

definition int32 :: "int \<Rightarrow> bool" where
  "int32 i = (- 2147483648 \<le> i \<and> i \<le> 2147483647)"

definition zero_byte :: "string \<Rightarrow> bool" where
  "zero_byte s = list_ex (\<lambda>c. (of_char c :: nat) = 0) s"

definition integer_reading :: "string \<Rightarrow> reading" where
  "integer_reading s =
     (case integer_text s of
        Some True \<Rightarrow> Stored (VInt (int_of_text s))
      | Some False \<Rightarrow> Refused
      | None \<Rightarrow> Unsure)"

text \<open>
  A value bound to a parameter \<open>$n\<close> travels as text and takes the type of the column it is
  assigned to or compared with. A \<open>character varying\<close> column has a length limit the
  catalogue's \<open>data_type\<close> does not tell: a text over the limit is refused, which is among
  the checks of \<open>accepts\<close> below, unless what exceeds is spaces, which the engine cuts off.
\<close>

fun bound :: "string \<Rightarrow> val \<Rightarrow> reading" where
  "bound ty VNull = Stored VNull"
| "bound ty (VInt i) =
     (if ty = ''integer'' then (if int32 i then Stored (VInt i) else Refused) else Unsure)"
| "bound ty (VStr s) =
     (if ty = ''integer'' then integer_reading s
      else if ty = ''text'' then (if zero_byte s then Refused else Stored (VStr s))
      else if ty = ''character varying'' then
        (if zero_byte s then Refused
         else if s = [] \<or> last s \<noteq> CHR '' '' then Stored (VStr s)
         else Unsure)
      else Unsure)"
| "bound ty (VBool b) =
     (if ty = ''boolean'' then Stored (VBool b)
      else if ty = ''integer'' then Refused
      else Unsure)"

text \<open>
  A value given among the \<open>replacements\<close> is written into the statement as a literal: a
  text between quotes, which takes the type of the column it is compared with; a number or
  a boolean as it is, and then the comparison with a column of another type is refused.
\<close>

fun literal :: "string \<Rightarrow> val \<Rightarrow> reading" where
  "literal ty VNull = Stored VNull"
| "literal ty (VInt i) =
     (if ty = ''integer'' then (if int32 i then Stored (VInt i) else Unsure)
      else if ty = ''text'' \<or> ty = ''character varying'' \<or> ty = ''boolean'' then Refused
      else Unsure)"
| "literal ty (VStr s) =
     (if ty = ''integer'' then integer_reading s
      else if ty = ''text'' \<or> ty = ''character varying'' then
        (if zero_byte s then Unsure else Stored (VStr s))
      else Unsure)"
| "literal ty (VBool b) =
     (if ty = ''boolean'' then Stored (VBool b)
      else if ty = ''integer'' \<or> ty = ''text'' \<or> ty = ''character varying'' then Refused
      else Unsure)"

definition type_of :: "tbl \<Rightarrow> string \<Rightarrow> string" where
  "type_of t c = (case find (\<lambda>f. col_name f = c) (t_cols t) of
                    None \<Rightarrow> [] | Some f \<Rightarrow> col_type f)"


text \<open>
  \<open>UPDATE "t" SET "k1" = $1, ... WHERE id = $n RETURNING *\<close>; throws without the table, its
  \<open>id\<close> column or one of the assigned columns, when a column refuses its value, and when
  the engine does not accept the outcome: \<open>accepts\<close> stands for the checks the engine makes
  on the table's data (keys, uniqueness, \<open>NOT NULL\<close>, checks, lengths, references to other
  tables), given the table's name, the values written and the rows that would result.
  Assigning a column that a foreign key of another table references may change or be
  refused by that table.
\<close>

type_synonym checks = "string \<Rightarrow> (string \<times> val) list \<Rightarrow> row list \<Rightarrow> bool"

definition readings :: "(string \<Rightarrow> val \<Rightarrow> reading) \<Rightarrow> tbl \<Rightarrow> (string \<times> val) list \<Rightarrow>
                        (string \<times> reading) list" where
  "readings rd t assigns = map (\<lambda>kv. (fst kv, rd (type_of t (fst kv)) (snd kv))) assigns"

definition values_of :: "(string \<times> reading) list \<Rightarrow> (string \<times> val) list" where
  "values_of rs = map (\<lambda>kr. (fst kr, stored (snd kr))) rs"

definition sql_update ::
  "checks \<Rightarrow> db \<Rightarrow> string \<Rightarrow> (string \<times> val) list \<Rightarrow> val \<Rightarrow> (row list \<times> db) option" where
  "sql_update accepts d table_name assigns idv =
     (case map_of d table_name of
        None \<Rightarrow> None
      | Some t \<Rightarrow>
          if has_column t ''id'' \<and> list_all (has_column t) (map fst assigns) then
            (let rs = readings bound t (assigns @ [(''id'', idv)])
             in if list_ex (\<lambda>kr. snd kr = Refused) rs then None
                else if list_ex (\<lambda>kr. snd kr = Unsure) rs
                        \<or> list_ex (column_referenced d table_name) (map fst assigns)
                then engine_dependent
                else
                  let written = values_of (readings bound t assigns);
                      key = stored (bound (type_of t ''id'') idv);
                      rows' = map (\<lambda>r. if sql_eq (cell r ''id'') key
                                        then AList.merge r written else r) (t_rows t)
                  in if accepts table_name written rows'
                     then Some (map (\<lambda>r. AList.merge r written)
                                  (filter (\<lambda>r. sql_eq (cell r ''id'') key) (t_rows t)),
                                AList.update table_name (t\<lparr>t_rows := rows'\<rparr>) d)
                     else None)
          else None)"

text \<open>
  \<open>INSERT INTO "t" ("k1", ...) VALUES ($1, ...) RETURNING *\<close>; throws without the table or
  one of the columns, on an empty column list (a syntax error), when a column refuses its
  value and when the engine does not accept the new row. A column that is not given takes
  its default: \<open>NULL\<close> without one, the next value of the table's sequence when the
  default is \<open>nextval\<close>; a sequence keeps no track of the rows and gives up its value also
  when the row is not accepted. The result is the new row, or nothing when the statement
  throws, and the store.
\<close>

definition from_sequence :: "column \<Rightarrow> bool" where
  "from_sequence c = (case col_default c of None \<Rightarrow> False | Some e \<Rightarrow> startsWith e ''nextval('')"

definition uses_sequence :: "tbl \<Rightarrow> (string \<times> val) list \<Rightarrow> bool" where
  "uses_sequence t assigns =
     list_ex (\<lambda>c. from_sequence c \<and> map_of assigns (col_name c) = None) (t_cols t)"

definition plain_defaults :: "tbl \<Rightarrow> (string \<times> val) list \<Rightarrow> bool" where
  "plain_defaults t assigns =
     (list_all (\<lambda>c. map_of assigns (col_name c) \<noteq> None \<or> col_default c = None \<or> from_sequence c)
        (t_cols t)
      \<and> length (filter from_sequence (t_cols t)) \<le> 1)"

definition new_row :: "tbl \<Rightarrow> (string \<times> val) list \<Rightarrow> row" where
  "new_row t written =
     map (\<lambda>c. (col_name c,
                case map_of written (col_name c) of
                  Some v \<Rightarrow> v
                | None \<Rightarrow> (if from_sequence c then VInt (t_seq t) else VNull)))
         (t_cols t)"

definition sql_insert ::
  "checks \<Rightarrow> db \<Rightarrow> string \<Rightarrow> (string \<times> val) list \<Rightarrow> row option \<times> db" where
  "sql_insert accepts d table_name assigns =
     (case map_of d table_name of
        None \<Rightarrow> (None, d)
      | Some t \<Rightarrow>
          if assigns \<noteq> [] \<and> list_all (has_column t) (map fst assigns) then
            (let rs = readings bound t assigns
             in if list_ex (\<lambda>kr. snd kr = Refused) rs then (None, d)
                else if list_ex (\<lambda>kr. snd kr = Unsure) rs \<or> \<not> plain_defaults t assigns
                then engine_dependent
                else
                  let written = values_of rs;
                      newRecord = new_row t written;
                      seq' = (if uses_sequence t assigns then t_seq t + 1 else t_seq t)
                  in if accepts table_name written (t_rows t @ [newRecord])
                     then (Some newRecord,
                           AList.update table_name
                             (t\<lparr>t_rows := t_rows t @ [newRecord], t_seq := seq'\<rparr>) d)
                     else (None, AList.update table_name (t\<lparr>t_seq := seq'\<rparr>) d))
          else (None, d))"

subsection \<open>updateTableRecord and updatePiRecord\<close>




subsection \<open>createTableRecord\<close>

text \<open>
  \<open>SELECT id FROM "t" WHERE k1 = :k1 AND ...\<close> with the values of the body as
  replacements; throws without the table, its \<open>id\<close> column or one of the compared columns,
  and when a comparison is refused.
\<close>

definition select_ids :: "db \<Rightarrow> string \<Rightarrow> (string \<times> val) list \<Rightarrow> val list option" where
  "select_ids d table_name conds =
     (case map_of d table_name of
        None \<Rightarrow> None
      | Some t \<Rightarrow>
          if has_column t ''id'' \<and> list_all (has_column t) (map fst conds) then
            (let rs = readings literal t conds
             in if list_ex (\<lambda>kr. snd kr = Refused) rs then None
                else if list_ex (\<lambda>kr. snd kr = Unsure) rs then engine_dependent
                else Some (map (\<lambda>r. cell r ''id'')
                             (filter (\<lambda>r. list_all (\<lambda>kv. sql_eq (cell r (fst kv)) (snd kv))
                                             (values_of rs))
                                (t_rows t))))
          else None)"

datatype saved = Updated "row option" | Created row

text \<open>
  The natural key the controller looks a row up by: for \<open>pi_formulacion\<close> the pair
  \<open>caracterizacion_id\<close>, \<open>rel_id_prov\<close>, for any other table \<open>caracterizacion_id\<close>; the
  lookup is made only when every key field of the filtered body is truthy.
\<close>

definition natural_key :: "string \<Rightarrow> (string \<times> val) list \<Rightarrow> (string \<times> val) list option" where
  "natural_key table_name filteredData =
     (if table_name = ''pi_formulacion'' then
        (case (map_of filteredData ''caracterizacion_id'', map_of filteredData ''rel_id_prov'') of
           (Some c, Some p) \<Rightarrow>
             if truthy c \<and> truthy p
             then Some [(''caracterizacion_id'', c), (''rel_id_prov'', p)] else None
         | _ \<Rightarrow> None)
      else
        (case map_of filteredData ''caracterizacion_id'' of
           Some c \<Rightarrow> if truthy c then Some [(''caracterizacion_id'', c)] else None
         | None \<Rightarrow> None))"

definition insert_record ::
  "checks \<Rightarrow> db \<Rightarrow> string \<Rightarrow> (string \<times> val) list \<Rightarrow> (err + saved) \<times> db" where
  "insert_record accepts d table_name filteredData =
     (case sql_insert accepts d table_name filteredData of
        (None, d') \<Rightarrow> (Inl InternalError, d')
      | (Some newRecord, d') \<Rightarrow> (Inr (Created newRecord), d'))"

text \<open>
  When several rows match the natural key, the one the controller updates is the first the
  engine returns, in an order of the engine's choice.
\<close>

definition createTableRecord ::
  "checks \<Rightarrow> db \<Rightarrow> string \<Rightarrow> (string \<times> val) list \<Rightarrow> (err + saved) \<times> db" where
  "createTableRecord accepts d table_name data =
     (if \<not> startsWith table_name ''pi_'' then (Inl InvalidName, d)
      else if simple_identifier table_name then
        let fields' = filter (\<lambda>n. n \<noteq> []) (map col_name (columns_ci d table_name)) in
        if length fields' = 0 then (Inl InternalError, d)
        else
          let filteredData = filter_data fields' data in
          if list_all simple_identifier (map fst filteredData) then
            (case natural_key table_name filteredData of
               None \<Rightarrow> insert_record accepts d table_name filteredData
             | Some key \<Rightarrow>
                 (case select_ids d table_name key of
                    None \<Rightarrow> (Inl InternalError, d)
                  | Some [] \<Rightarrow> insert_record accepts d table_name filteredData
                  | Some [recordId] \<Rightarrow>
                      (case sql_update accepts d table_name filteredData recordId of
                         None \<Rightarrow> (Inl InternalError, d)
                       | Some ([], d') \<Rightarrow> (Inr (Updated None), d')
                       | Some ([r], d') \<Rightarrow> (Inr (Updated (Some r)), d')
                       | Some (_ # _ # _, d') \<Rightarrow> (engine_dependent, d'))
                  | Some (_ # _ # _) \<Rightarrow> engine_dependent))
          else engine_dependent
      else engine_dependent)"

subsection \<open>getTableRecords\<close>














subsection \<open>getTableRecordById\<close>

text \<open>
  Sequelize keeps the models defined so far in the process, by name; a controller that finds
  a model defined uses it and otherwise defines it from the catalogue. A model is modelled
  by the list of its attributes. Only columns whose \<open>data_type\<close> is a key of the
  controller's \<open>validTypes\<close> become attributes; Sequelize puts an \<open>id\<close> attribute first when
  none of the attributes is a primary key.
\<close>

type_synonym models = "(string \<times> string list) list"

definition validTypes_model :: "string \<Rightarrow> bool" where
  "validTypes_model k =
     (k \<in> {''varchar'', ''character varying'', ''text'', ''integer'', ''boolean'', ''date''})"

definition tableColumns :: "column list \<Rightarrow> string list" where
  "tableColumns columns =
     (let acc = map col_name (filter (\<lambda>c. validTypes_model (toLowerCase (col_type c))) columns)
      in if ''id'' \<in> set acc then acc else ''id'' # acc)"

text \<open>
  \<open>findAll\<close> and \<open>findByPk\<close> select the attributes of the model; they throw without the
  table or one of the attributes.
\<close>

definition project :: "string list \<Rightarrow> row \<Rightarrow> row" where
  "project attrs r = map (\<lambda>a. (a, cell r a)) attrs"

definition findAll :: "db \<Rightarrow> string \<Rightarrow> string list \<Rightarrow> row list option" where
  "findAll d table_name attrs =
     (case map_of d table_name of
        None \<Rightarrow> None
      | Some t \<Rightarrow>
          if \<not> list_all (has_column t) attrs then None
          else Some (map (project attrs) (t_rows t)))"

definition findByPk :: "db \<Rightarrow> string \<Rightarrow> string list \<Rightarrow> int \<Rightarrow> row option option" where
  "findByPk d table_name attrs record_id =
     (case findAll d table_name attrs of
        None \<Rightarrow> None
      | Some rs \<Rightarrow> Some (find (\<lambda>r. sql_eq (cell r ''id'') (VInt record_id)) rs))"

text \<open>
  The rows of \<open>key_column_usage\<close> joined with \<open>constraint_column_usage\<close> for the table: one
  pair of column and related table for every key constraint, the primary key among them.
\<close>

definition key_fields :: "db \<Rightarrow> string \<Rightarrow> (string \<times> string) list" where
  "key_fields d table_name =
     (case map_of d table_name of
        None \<Rightarrow> []
      | Some t \<Rightarrow> map (\<lambda>k. (k_column k, k_ref_table k)) (t_keys t))"

definition domain_ok :: "string \<Rightarrow> string \<Rightarrow> bool" where
  "domain_ok table_name relatedTableName =
     (\<not> (startsWith table_name ''provider_'' \<and> \<not> startsWith relatedTableName ''provider_'') \<and>
      \<not> (startsWith table_name ''inscription_'' \<and> \<not> startsWith relatedTableName ''inscription_'') \<and>
      \<not> (startsWith table_name ''pi_'' \<and> \<not> startsWith relatedTableName ''pi_''
          \<and> \<not> startsWith relatedTableName ''inscription_''
          \<and> \<not> startsWith relatedTableName ''provider_''))"

definition displayField :: "string list \<Rightarrow> string" where
  "displayField attrs = (case find (\<lambda>col. col \<noteq> ''id'') attrs of None \<Rightarrow> ''id'' | Some f \<Rightarrow> f)"

type_synonym related = "(string \<times> (val \<times> val) list) list"

fun related_loop ::
  "db \<Rightarrow> string \<Rightarrow> (string \<times> string) list \<Rightarrow> models \<Rightarrow> related \<Rightarrow> related option \<times> models" where
  "related_loop d table_name [] ms relatedData = (Some relatedData, ms)"
| "related_loop d table_name ((foreignKeyColumn, relatedTableName) # rest) ms relatedData =
     (if \<not> domain_ok table_name relatedTableName then
        related_loop d table_name rest ms relatedData
      else if relatedTableName = [] then
        related_loop d table_name rest ms relatedData
      else
        let RelatedTable =
              (case map_of ms relatedTableName of
                 Some attrs \<Rightarrow> attrs
               | None \<Rightarrow> tableColumns (columns_of d relatedTableName));
            ms' = (case map_of ms relatedTableName of
                     Some _ \<Rightarrow> ms
                   | None \<Rightarrow> AList.update relatedTableName RelatedTable ms)
        in
          (case findAll d relatedTableName RelatedTable of
             None \<Rightarrow> (None, ms')
           | Some relatedRecords \<Rightarrow>
               if length relatedRecords > 0 then
                 related_loop d table_name rest ms'
                   (set_prop relatedData foreignKeyColumn
                      (map (\<lambda>r. (cell r ''id'', cell r (displayField RelatedTable)))
                         relatedRecords))
               else related_loop d table_name rest ms' relatedData))"

definition getTableRecordById ::
  "db \<Rightarrow> models \<Rightarrow> string \<Rightarrow> int \<Rightarrow> (err + row \<times> related) \<times> models" where
  "getTableRecordById d ms table_name record_id =
     (case (case map_of ms table_name of
              Some attrs \<Rightarrow> Inr (attrs, ms)
            | None \<Rightarrow>
                let columns = columns_of d table_name in
                if length columns = 0 then Inl NotFound
                else Inr (tableColumns columns,
                          AList.update table_name (tableColumns columns) ms)) of
        Inl e \<Rightarrow> (Inl e, ms)
      | Inr (Table, ms1) \<Rightarrow>
          (case findByPk d table_name Table record_id of
             None \<Rightarrow> (Inl InternalError, ms1)
           | Some None \<Rightarrow> (Inl NotFound, ms1)
           | Some (Some record') \<Rightarrow>
               (case related_loop d table_name (key_fields d table_name) ms1 [] of
                  (None, ms2) \<Rightarrow> (Inl InternalError, ms2)
                | (Some relatedData, ms2) \<Rightarrow> (Inr (record', relatedData), ms2))))"


section \<open>Files\<close>

subsection \<open>Node's path module (POSIX)\<close>

definition split_slash :: "string \<Rightarrow> string list" where
  "split_slash s =
     (let r = foldr (\<lambda>c acc. if c = CHR ''/'' then [] # acc
                              else (c # hd acc) # tl acc) s [[]]
      in r)"

text \<open>
  \<open>normalizeString\<close>: empty segments and \<open>.\<close> are dropped, \<open>..\<close> removes the segment before
  it unless that is itself \<open>..\<close> or there is none (then it is kept only if the path may
  climb above its root). \<open>res\<close> holds the segments kept so far, last first.
\<close>

fun normalizeString :: "string list \<Rightarrow> bool \<Rightarrow> string list \<Rightarrow> string list" where
  "normalizeString [] allowAboveRoot res = rev res"
| "normalizeString (seg # segs) allowAboveRoot res =
     (if seg = [] \<or> seg = ''.'' then normalizeString segs allowAboveRoot res
      else if seg = ''..'' then
        (case res of
           seg' # res' \<Rightarrow>
             if seg' \<noteq> ''..'' then normalizeString segs allowAboveRoot res'
             else normalizeString segs allowAboveRoot
                    (if allowAboveRoot then ''..'' # res else res)
         | [] \<Rightarrow> normalizeString segs allowAboveRoot
                   (if allowAboveRoot then [''..''] else []))
      else normalizeString segs allowAboveRoot (seg # res))"

definition join_slash :: "string list \<Rightarrow> string" where
  "join_slash segs = (case segs of [] \<Rightarrow> [] | x # xs \<Rightarrow> foldl (\<lambda>a b. a @ ''/'' @ b) x xs)"

definition path_normalize :: "string \<Rightarrow> string" where
  "path_normalize path =
     (if path = [] then ''.''
      else
        let isAbsolute = (hd path = CHR ''/'');
            trailingSeparator = (last path = CHR ''/'');
            p = join_slash (normalizeString (split_slash path) (\<not> isAbsolute) [])
        in
          if p = [] then (if isAbsolute then ''/'' else if trailingSeparator then ''./'' else ''.'')
          else (if isAbsolute then ''/'' else []) @ p @ (if trailingSeparator then ''/'' else []))"

definition path_join :: "string list \<Rightarrow> string" where
  "path_join args =
     (let joined = join_slash (filter (\<lambda>a. a \<noteq> []) args)
      in if joined = [] then ''.'' else path_normalize joined)"

definition last_dot :: "string \<Rightarrow> nat option" where
  "last_dot b = (case filter (\<lambda>i. b ! i = CHR ''.'') (rev [0..<length b]) of
                   [] \<Rightarrow> None | i # _ \<Rightarrow> Some i)"

definition path_extname :: "string \<Rightarrow> string" where
  "path_extname path =
     (let b = last (split_slash (rev (dropWhile (\<lambda>c. c = CHR ''/'') (rev path))))
      in case last_dot b of
           None \<Rightarrow> []
         | Some i \<Rightarrow> if i = 0 \<or> b = ''..'' then [] else drop i b)"

subsection \<open>uploadFile\<close>

text \<open>
  The file system is the list of the paths of the files on disk; the directories are those
  the files lie in, and \<open>mkdirSync\<close> with \<open>recursive\<close> makes the missing ones. The rows of the
  model \<open>File\<close> (\<open>models/File.js\<close>) keep the fields the controller sets, as it passes
  them; the generated \<open>id\<close> and \<open>created_at\<close> are left out.
\<close>

type_synonym fsys = "string list"

record upload =
  originalname :: string
  tmp_path :: string

record file_row =
  fr_record_id :: string
  fr_table_name :: string
  fr_name :: string
  fr_file_path :: string
  fr_source :: string

definition is_directory :: "fsys \<Rightarrow> string \<Rightarrow> bool" where
  "is_directory fs p = list_ex (\<lambda>f. startsWith f (p @ ''/'')) fs"

definition file_in_the_way :: "fsys \<Rightarrow> string \<Rightarrow> bool" where
  "file_in_the_way fs dir = list_ex (\<lambda>f. f = dir \<or> startsWith dir (f @ ''/'')) fs"

definition simple_name :: "string \<Rightarrow> bool" where
  "simple_name f =
     (f \<noteq> [] \<and> f \<noteq> ''.'' \<and> f \<noteq> ''..'' \<and> length f \<le> 255
      \<and> list_all (\<lambda>c. c \<noteq> CHR ''/'' \<and> (of_char c :: nat) \<noteq> 0) f)"

definition copyFileSync :: "fsys \<Rightarrow> string \<Rightarrow> string \<Rightarrow> fsys option" where
  "copyFileSync fs src dest =
     (if src \<in> set fs \<and> \<not> is_directory fs dest then Some (List.insert dest fs) else None)"

definition unlinkSync :: "fsys \<Rightarrow> string \<Rightarrow> fsys" where
  "unlinkSync fs p = removeAll p fs"

text \<open>
  \<open>File.create\<close> inserts the row. \<open>record_id\<close> is an \<open>INTEGER\<close> column and the controller
  passes a text, which the engine reads as \<open>integer_text\<close> says. The other columns are
  \<open>VARCHAR(255)\<close>: a text of at most 255 bytes fits, an ASCII text that is longer or that
  holds a zero byte is refused.
\<close>

definition varchar_text :: "string \<Rightarrow> bool option" where
  "varchar_text s =
     (if list_ex (\<lambda>c. (of_char c :: nat) = 0) s then Some False
      else if length s \<le> 255 then Some True
      else if ascii s then Some False
      else None)"

definition File_create :: "file_row list \<Rightarrow> file_row \<Rightarrow> file_row list option" where
  "File_create files r =
     (let checks = [integer_text (fr_record_id r), varchar_text (fr_table_name r),
                    varchar_text (fr_name r), varchar_text (fr_file_path r),
                    varchar_text (fr_source r)]
      in if list_all (\<lambda>c. c = Some True) checks then Some (files @ [r])
         else if list_ex (\<lambda>c. c = Some False) checks then None
         else engine_dependent)"

definition uploadFile ::
  "fsys \<Rightarrow> file_row list \<Rightarrow> string \<Rightarrow> string \<Rightarrow> upload option \<Rightarrow>
   string option \<Rightarrow> string option \<Rightarrow> string option \<Rightarrow> (err + file_row) \<times> fsys \<times> file_row list" where
  "uploadFile fs files table_name record_id file fileName caracterizacion_id source =
     (case file of
        None \<Rightarrow> (Inl MissingField, fs, files)
      | Some f \<Rightarrow>
          if \<not> startsWith table_name ''inscription_'' \<and> \<not> startsWith table_name ''provider_''
             \<and> \<not> startsWith table_name ''pi_''
          then (Inl InvalidName, fs, files)
          else if startsWith table_name ''pi_'' \<and> falsy caracterizacion_id
          then (Inl MissingField, fs, files)
          else
            let uploadDir =
                  (if startsWith table_name ''pi_''
                   then path_join [''/var/data/uploads'', ''inscription_caracterizacion'',
                                   the caracterizacion_id]
                   else path_join [''/var/data/uploads'', table_name, record_id]);
                finalRecordId =
                  (if startsWith table_name ''pi_'' then the caracterizacion_id else record_id);
                ext = path_extname (originalname f);
                finalFileName = (if falsy fileName then originalname f else the fileName @ ext);
                newPath = path_join [uploadDir, finalFileName]
            in
              if file_in_the_way fs uploadDir then (Inl InternalError, fs, files)
              else if \<not> simple_name finalFileName then engine_dependent
              else
              (case copyFileSync fs (tmp_path f) newPath of
                 None \<Rightarrow> (Inl InternalError, fs, files)
               | Some fs' \<Rightarrow>
                   let fs'' = unlinkSync fs' (tmp_path f);
                       relativeFilePath =
                         path_join [''/uploads'', table_name, finalRecordId, finalFileName];
                       newFile = \<lparr>fr_record_id = finalRecordId, fr_table_name = table_name,
                                  fr_name = finalFileName, fr_file_path = relativeFilePath,
                                  fr_source = (if falsy source then ''unknown'' else the source)\<rparr>
                   in
                     (case File_create files newFile of
                        None \<Rightarrow> (Inl InternalError, fs'', files)
                      | Some files' \<Rightarrow> (Inr newFile, fs'', files'))))"

subsection \<open>uploadCsv\<close>

fun str_includes :: "string \<Rightarrow> string \<Rightarrow> bool" where
  "str_includes [] sub = (sub = [])"
| "str_includes (c # cs) sub = (startsWith (c # cs) sub \<or> str_includes cs sub)"

text \<open>
  The model the import defines: the attributes are the columns whose \<open>data_type\<close> (a name
  the engine's catalogue reports) is a key of \<open>validTypes\<close>, each with its Sequelize type,
  and \<open>id\<close> is the auto-increment primary key only when its default draws on a sequence.
  \<open>sequelize.define\<close> throws on an \<open>id\<close> attribute that is not the primary key, and adds an
  \<open>id\<close> attribute of its own when there is none.
\<close>

definition csv_type :: "string \<Rightarrow> seqtype option" where
  "csv_type k =
     (if k = ''varchar'' \<or> k = ''character varying'' then Some STRING
      else if k = ''text'' then Some TEXT
      else if k = ''integer'' then Some INTEGER
      else if k = ''boolean'' then Some BOOLEAN
      else if k = ''date'' then Some DATE
      else None)"

definition csv_tableColumns :: "column list \<Rightarrow> (string \<times> seqtype \<times> bool) list" where
  "csv_tableColumns columns =
     foldl (\<lambda>acc column.
              case csv_type (toLowerCase (col_type column)) of
                Some sequelizeType \<Rightarrow>
                  set_prop acc (col_name column)
                    (sequelizeType,
                     col_name column = ''id'' \<and>
                     (case col_default column of
                        None \<Rightarrow> False | Some dflt \<Rightarrow> str_includes dflt ''nextval''))
              | None \<Rightarrow> acc) [] columns"

definition csv_define :: "(string \<times> seqtype \<times> bool) list \<Rightarrow> string list option" where
  "csv_define tc =
     (if list_ex (\<lambda>a. snd (snd a)) tc then Some (map fst tc)
      else if ''id'' \<in> set (map fst tc) then None
      else Some (''id'' # map fst tc))"

text \<open>
  The handler of a parsed CSV row. \<open>tableColumns[key]\<close> is a property read, so it also
  finds what the object inherits. \<open>sequelize.define\<close> has by then replaced the type of every
  attribute of \<open>tableColumns\<close> by an instance of it, so the comparison of
  \<open>tableColumns[key].type\<close> with \<open>Sequelize.STRING\<close> or \<open>Sequelize.TEXT\<close> never holds and
  every value is taken as the text the parser read. The \<open>id\<close> is dropped when the model's
  \<open>id\<close> is auto-increment.
\<close>

definition processedData ::
  "(string \<times> seqtype \<times> bool) list \<Rightarrow> (string \<times> string) list \<Rightarrow> (string \<times> string) list" where
  "processedData tc data =
     (let acc = foldl (\<lambda>acc kv.
                         if map_of tc (fst kv) \<noteq> None \<or> fst kv \<in> set object_prototype_keys
                         then set_prop acc (fst kv) (snd kv)
                         else acc) [] data
      in if ''id'' \<in> set (map fst acc) \<and>
            (case map_of tc ''id'' of Some (_, auto) \<Rightarrow> auto | None \<Rightarrow> False)
         then AList.delete ''id'' acc else acc)"

record csv_upload =
  csv_path :: string
  csv_data :: "(string \<times> string) list list"

text \<open>
  \<open>Table.bulkCreate(results, { validate: true })\<close> inserts the rows or throws. How the ORM
  and the engine turn the texts into values of the columns, and which rows they accept, is
  the parameter \<open>bulkCreate\<close>: the store after the insertion, or \<open>None\<close> when it throws. The
  two catalogue queries put the name between single quotes; a name that holds one makes
  them other statements. Reading a file that is not there ends the process.
\<close>

definition uploadCsv ::
  "(db \<Rightarrow> string \<Rightarrow> (string \<times> string) list list \<Rightarrow> db option) \<Rightarrow>
   db \<Rightarrow> models \<Rightarrow> fsys \<Rightarrow> string \<Rightarrow> csv_upload option \<Rightarrow>
   (err + unit) \<times> db \<times> models \<times> fsys" where
  "uploadCsv bulkCreate d ms fs table_name file =
     (case file of
        None \<Rightarrow> (Inl MissingField, d, ms, fs)
      | Some f \<Rightarrow>
          if CHR 0x27 \<in> set table_name then engine_dependent
          else if map_of d table_name = None then (Inl NotFound, d, ms, fs)
          else
            let columns = columns_of d table_name in
            if length columns = 0 then (Inl NotFound, d, ms, fs)
            else
              let tc = csv_tableColumns columns in
              (case csv_define tc of
                 None \<Rightarrow> (Inl InternalError, d, ms, fs)
               | Some Table \<Rightarrow>
                   let ms' = AList.update table_name Table ms;
                       filePath = csv_path f;
                       results = map (processedData tc) (csv_data f)
                   in
                     if filePath \<notin> set fs then engine_dependent
                     else
                       (case bulkCreate d table_name results of
                          Some d' \<Rightarrow> (Inr (), d', ms', unlinkSync fs filePath)
                        | None \<Rightarrow> (Inl InternalError, d, ms', unlinkSync fs filePath))))"

section \<open>Vocabulary of the properties\<close>

text \<open>What the checks of the column deletion see of a column of a table of the store.\<close>

definition col_exists :: "db \<Rightarrow> string \<Rightarrow> string \<Rightarrow> bool" where
  "col_exists d table_name c =
     (case map_of d table_name of None \<Rightarrow> False | Some t \<Rightarrow> has_column t c)"

definition has_data :: "db \<Rightarrow> string \<Rightarrow> string \<Rightarrow> bool" where
  "has_data d table_name c =
     (case map_of d table_name of None \<Rightarrow> False | Some t \<Rightarrow> count_not_null t c > 0)"

definition has_key :: "db \<Rightarrow> string \<Rightarrow> string \<Rightarrow> bool" where
  "has_key d table_name c =
     (case map_of d table_name of
        None \<Rightarrow> False | Some t \<Rightarrow> length (key_column_usage t c) > 0)"

definition refused :: "db \<Rightarrow> string \<Rightarrow> string \<Rightarrow> bool" where
  "refused d table_name c = (has_data d table_name c \<or> has_key d table_name c)"

text \<open>
  The answer of a deletion of the columns \<open>cs\<close>, taken in order: the error of the first
  refused column, and the columns that were dropped before it.
\<close>

definition first_refusal :: "db \<Rightarrow> string \<Rightarrow> string list \<Rightarrow> err + unit" where
  "first_refusal d table_name cs =
     (case find (refused d table_name) cs of
        None \<Rightarrow> Inr ()
      | Some c \<Rightarrow> Inl (if has_data d table_name c then ColumnHasData
                       else ColumnHasForeignKey))"

definition dropped_before :: "db \<Rightarrow> string \<Rightarrow> string list \<Rightarrow> string list" where
  "dropped_before d table_name cs = takeWhile (\<lambda>c. \<not> refused d table_name c) cs"

definition to_delete :: "edit_body \<Rightarrow> string list" where
  "to_delete body = (case fieldsToDelete body of None \<Rightarrow> [] | Some cs \<Rightarrow> cs)"




text \<open>
  The store has one table of the name, and no other whose name differs from it in letter
  case only; the names of its tables are ASCII.
\<close>

definition sole_name :: "db \<Rightarrow> string \<Rightarrow> bool" where
  "sole_name d table_name =
     (distinct (map fst d)
      \<and> list_all (\<lambda>nt. ascii (fst nt)
                      \<and> (toLowerCase (fst nt) = toLowerCase table_name \<longrightarrow> fst nt = table_name)) d)"

text \<open>
  What an update writes. The values of \<open>fd\<close> are surely read when the engine's reading of
  each by its column is certain (stored or refused), the column's name stands for itself
  and no foreign key of another table references the column; one of them is refused when
  its column refuses it. \<open>written\<close> is what the columns store of them, \<open>rows_with\<close> the
  rows of the table with the given \<open>id\<close> and \<open>update_rows\<close> the rows of the table after
  the values are written to those.
\<close>

definition surely_read :: "db \<Rightarrow> string \<Rightarrow> tbl \<Rightarrow> (string \<times> val) list \<Rightarrow> bool" where
  "surely_read d table_name t fd =
     list_all (\<lambda>kv. simple_identifier (fst kv) \<and> \<not> column_referenced d table_name (fst kv)
                    \<and> bound (type_of t (fst kv)) (snd kv) \<noteq> Unsure) fd"

definition refuses :: "tbl \<Rightarrow> (string \<times> val) list \<Rightarrow> bool" where
  "refuses t fd = list_ex (\<lambda>kv. bound (type_of t (fst kv)) (snd kv) = Refused) fd"

definition written :: "tbl \<Rightarrow> (string \<times> val) list \<Rightarrow> (string \<times> val) list" where
  "written t fd = values_of (readings bound t fd)"

definition rows_with :: "tbl \<Rightarrow> val \<Rightarrow> row list" where
  "rows_with t key = filter (\<lambda>r. sql_eq (cell r ''id'') key) (t_rows t)"

definition update_rows :: "tbl \<Rightarrow> val \<Rightarrow> (string \<times> val) list \<Rightarrow> row list" where
  "update_rows t key fd =
     map (\<lambda>r. if sql_eq (cell r ''id'') key then AList.merge r (written t fd) else r) (t_rows t)"

text \<open>
  What an upsert looks for and writes. \<open>filtered\<close> is the filter of \<open>createTableRecord\<close>; a
  filtered body carries the natural key \<open>key_of\<close> when its key fields are truthy; the key is
  read when the engine reads each of its values the same, and surely, as a literal and as
  a parameter, and not as \<open>NULL\<close>; \<open>matching\<close> are the rows of the table the lookup finds.
  \<open>created\<close> is the row an insert of the filtered body makes, \<open>overwritten\<close> that row after
  a second body is written to it, and \<open>with_last\<close> the table with such a row after its
  own. The \<open>id\<close> column is an integer key of the rows when its type is \<open>integer\<close> and the
  rows have distinct 32-bit integers there.
\<close>

definition filtered :: "tbl \<Rightarrow> (string \<times> val) list \<Rightarrow> (string \<times> val) list" where
  "filtered t data = filter_data (filter (\<lambda>n. n \<noteq> []) (col_names t)) data"

definition key_of :: "string \<Rightarrow> val \<Rightarrow> val \<Rightarrow> (string \<times> val) list" where
  "key_of table_name c p =
     (if table_name = ''pi_formulacion''
      then [(''caracterizacion_id'', c), (''rel_id_prov'', p)]
      else [(''caracterizacion_id'', c)])"

definition carries :: "string \<Rightarrow> (string \<times> val) list \<Rightarrow> val \<Rightarrow> val \<Rightarrow> bool" where
  "carries table_name fd c p =
     (map_of fd ''caracterizacion_id'' = Some c \<and> truthy c
      \<and> (table_name = ''pi_formulacion'' \<longrightarrow> map_of fd ''rel_id_prov'' = Some p \<and> truthy p))"

definition key_read :: "tbl \<Rightarrow> (string \<times> val) list \<Rightarrow> bool" where
  "key_read t key =
     list_all (\<lambda>kv. literal (type_of t (fst kv)) (snd kv) = bound (type_of t (fst kv)) (snd kv)
                    \<and> (case literal (type_of t (fst kv)) (snd kv) of
                          Stored k \<Rightarrow> k \<noteq> VNull | Refused \<Rightarrow> False | Unsure \<Rightarrow> False)) key"

definition matching :: "tbl \<Rightarrow> (string \<times> val) list \<Rightarrow> row list" where
  "matching t key =
     filter (\<lambda>r. list_all (\<lambda>kv. sql_eq (cell r (fst kv)) (snd kv))
                    (values_of (readings literal t key))) (t_rows t)"

definition integer_ids :: "tbl \<Rightarrow> row list \<Rightarrow> bool" where
  "integer_ids t rows =
     (type_of t ''id'' = ''integer''
      \<and> distinct (map (\<lambda>r. cell r ''id'') rows)
      \<and> list_all (\<lambda>r. case cell r ''id'' of VInt i \<Rightarrow> int32 i | _ \<Rightarrow> False) rows)"

definition next_seq :: "tbl \<Rightarrow> (string \<times> val) list \<Rightarrow> int" where
  "next_seq t fd = (if uses_sequence t fd then t_seq t + 1 else t_seq t)"

definition created :: "tbl \<Rightarrow> (string \<times> val) list \<Rightarrow> row" where
  "created t fd = new_row t (written t fd)"

definition overwritten :: "tbl \<Rightarrow> (string \<times> val) list \<Rightarrow> (string \<times> val) list \<Rightarrow> row" where
  "overwritten t fd1 fd2 = AList.merge (created t fd1) (written t fd2)"

definition with_last :: "tbl \<Rightarrow> (string \<times> val) list \<Rightarrow> row \<Rightarrow> tbl" where
  "with_last t fd r = t\<lparr>t_rows := t_rows t @ [r], t_seq := next_seq t fd\<rparr>"

section \<open>Concrete stores for the examples\<close>

definition id_column :: "string \<Rightarrow> column" where
  "id_column table_name =
     \<lparr>col_name = ''id'', col_type = ''integer'', col_nullable = False,
      col_default = Some (''nextval('' @ table_name @ ''_id_seq)'')\<rparr>"

definition text_column :: "string \<Rightarrow> column" where
  "text_column n =
     \<lparr>col_name = n, col_type = ''character varying'', col_nullable = True,
      col_default = None\<rparr>"

definition int_column :: "string \<Rightarrow> column" where
  "int_column n =
     \<lparr>col_name = n, col_type = ''integer'', col_nullable = True, col_default = None\<rparr>"

definition pkey :: "string \<Rightarrow> key_use" where
  "pkey table_name =
     \<lparr>k_kind = PrimaryKey, k_column = ''id'', k_ref_table = table_name, k_ref_column = ''id''\<rparr>"

definition users :: tbl where
  "users = \<lparr>t_cols = [id_column ''users'', text_column ''email''],
            t_keys = [pkey ''users''], t_rows = [], t_seq = 1\<rparr>"

definition provider_a :: "row list \<Rightarrow> tbl" where
  "provider_a rows =
     \<lparr>t_cols = [id_column ''provider_a'', text_column ''name''],
      t_keys = [pkey ''provider_a''], t_rows = rows, t_seq = 1 + int (length rows)\<rparr>"

definition provider_b :: tbl where
  "provider_b =
     \<lparr>t_cols = [id_column ''provider_b'', int_column ''a_id''],
      t_keys = [pkey ''provider_b'',
                \<lparr>k_kind = ForeignKey Cascade SetNull, k_column = ''a_id'',
                 k_ref_table = ''provider_a'', k_ref_column = ''id''\<rparr>],
      t_rows = [], t_seq = 1\<rparr>"

definition caracterizaciones :: tbl where
  "caracterizaciones =
     \<lparr>t_cols = [id_column ''inscription_caracterizacion'', int_column ''Estado''],
      t_keys = [pkey ''inscription_caracterizacion''],
      t_rows = [[(''id'', VInt 1), (''Estado'', VInt 1)],
                [(''id'', VInt 2), (''Estado'', VInt 3)],
                [(''id'', VInt 3), (''Estado'', VInt 2)]],
      t_seq = 4\<rparr>"

definition pi_plan :: "row list \<Rightarrow> tbl" where
  "pi_plan rows =
     \<lparr>t_cols = [id_column ''pi_plan'', int_column ''caracterizacion_id'', text_column ''rubro''],
      t_keys = [pkey ''pi_plan''], t_rows = rows, t_seq = 1 + int (length rows)\<rparr>"

definition plan_rows :: "row list" where
  "plan_rows =
     [[(''id'', VInt 1), (''caracterizacion_id'', VInt 1), (''rubro'', VStr ''a'')],
      [(''id'', VInt 2), (''caracterizacion_id'', VInt 2), (''rubro'', VStr ''b'')],
      [(''id'', VInt 3), (''caracterizacion_id'', VInt 3), (''rubro'', VStr ''c'')]]"

definition provider_item :: tbl where
  "provider_item =
     \<lparr>t_cols = [id_column ''provider_item'', int_column ''ref_id'', int_column ''alt_id'',
                text_column ''note'', text_column ''extra''],
      t_keys = [pkey ''provider_item'',
                \<lparr>k_kind = ForeignKey Cascade SetNull, k_column = ''ref_id'',
                 k_ref_table = ''provider_a'', k_ref_column = ''id''\<rparr>,
                \<lparr>k_kind = ForeignKey Cascade SetNull, k_column = ''alt_id'',
                 k_ref_table = ''provider_a'', k_ref_column = ''id''\<rparr>],
      t_rows = [[(''id'', VInt 1), (''ref_id'', VInt 1), (''alt_id'', VNull),
                 (''note'', VStr ''n''), (''extra'', VNull)],
                [(''id'', VInt 2), (''ref_id'', VNull), (''alt_id'', VNull),
                 (''note'', VNull), (''extra'', VNull)]],
      t_seq = 3\<rparr>"

definition item_store :: db where
  "item_store =
     [(''provider_a'', provider_a [[(''id'', VInt 1), (''name'', VStr ''x'')]]),
      (''provider_item'', provider_item)]"

definition only_delete :: "string list \<Rightarrow> edit_body" where
  "only_delete cs = \<lparr>fieldsToAdd = None, fieldsToDelete = Some cs, fieldsToEdit = None\<rparr>"

definition plan_store :: db where
  "plan_store =
     [(''inscription_caracterizacion'', caracterizaciones), (''pi_plan'', pi_plan plan_rows)]"

text \<open>An engine without checks on the rows.\<close>

definition always :: checks where
  "always table_name values' rows = True"

definition pi_formulacion :: tbl where
  "pi_formulacion =
     \<lparr>t_cols = [id_column ''pi_formulacion'', int_column ''caracterizacion_id'',
                int_column ''rel_id_prov'', text_column ''detalle''],
      t_keys = [pkey ''pi_formulacion''],
      t_rows = [[(''id'', VInt 1), (''caracterizacion_id'', VInt 7), (''rel_id_prov'', VInt 1),
                 (''detalle'', VStr ''x'')]],
      t_seq = 2\<rparr>"

(*THEOREMS*)
section \<open>Properties of the schema mutation engine\<close>

subsection \<open>deleteTable\<close>

text \<open>
  Claim C7, as stated, fails. The claim is that \<open>deleteTable\<close> on a table with a row always
  fails with \<open>NotEmpty\<close> and on a table without rows always succeeds. The count reads the
  name unquoted and the drop quotes it: with the tables \<open>provider_A\<close> (one row) and
  \<open>provider_a\<close> (none), \<open>deleteTable\<close> on \<open>provider_A\<close> counts the rows of \<open>provider_a\<close>,
  finds none, and drops \<open>provider_A\<close> with its row. And the drop has no \<open>CASCADE\<close>: the
  empty table \<open>provider_a\<close> that a foreign key of \<open>provider_b\<close> references is not dropped, the
  call fails with status 500.
\<close>

theorem deleteTable_drops_rows_or_is_refused:
  "deleteTable [(''provider_A'', provider_a [[(''id'', VInt 1), (''name'', VStr ''x'')]]),
                (''provider_a'', provider_a [])] ''provider_A''
     = (Inr (), [(''provider_a'', provider_a [])])
   \<and> deleteTable [(''provider_a'', provider_a []), (''provider_b'', provider_b)] ''provider_a''
     = (Inl InternalError, [(''provider_a'', provider_a []), (''provider_b'', provider_b)])"
  by code_simp

lemma listed_subset: "listed (listTables d reg tableType isPrimary) \<subseteq> fst ` set d"
proof -
  have a: "fst ` set (map (\<lambda>n. (n, f n)) (filter P (map fst d))) \<subseteq> fst ` set d"
    for f :: "string \<Rightarrow> bool" and P
    by force
  have b: "fst ` set (filter snd (map (\<lambda>n. (n, f n)) (filter P (map fst d)))) \<subseteq> fst ` set d"
    for f :: "string \<Rightarrow> bool" and P
    by force
  show ?thesis
    unfolding listed_def listTables_def Let_def
    by (simp only: a b sum.case empty_subsetI split: if_splits) simp
qed

lemma deleteTable_plain:
  assumes "plain_identifier table_name" and "toLowerCase table_name = table_name"
      and "map_of d table_name = Some t"
  shows "deleteTable d table_name =
           (if t_rows t \<noteq> [] then (Inl NotEmpty, d)
            else if referenced_by_other d table_name then (Inl InternalError, d)
            else (Inr (), AList.delete table_name d))"
  using assms by (simp add: deleteTable_def dropTable_def Let_def)

text \<open>
  Claim C7, amended. For a table whose name is a plain identifier without upper-case
  letters: when the table holds a row, \<open>deleteTable\<close> fails with \<open>NotEmpty\<close> and the store is
  as it was; when it holds none and a foreign key of another table references it, the call
  fails with \<open>InternalError\<close> and the store is as it was; when it holds none and no other
  table references it, the call succeeds, the table is gone, every other table stays, and
  no later \<open>listTables\<close> call lists it.
\<close>

theorem deleteTable_lower_case_name:
  assumes "plain_identifier table_name" and "toLowerCase table_name = table_name"
      and "map_of d table_name = Some t"
  shows "(t_rows t \<noteq> [] \<longrightarrow> deleteTable d table_name = (Inl NotEmpty, d))
       \<and> (t_rows t = [] \<and> referenced_by_other d table_name \<longrightarrow>
            deleteTable d table_name = (Inl InternalError, d))
       \<and> (t_rows t = [] \<and> \<not> referenced_by_other d table_name \<longrightarrow>
            fst (deleteTable d table_name) = Inr ()
          \<and> table_name \<notin> fst ` set (snd (deleteTable d table_name))
          \<and> (\<forall>n. n \<noteq> table_name \<longrightarrow> map_of (snd (deleteTable d table_name)) n = map_of d n)
          \<and> (\<forall>reg tableType isPrimary.
                table_name \<notin> listed (listTables (snd (deleteTable d table_name))
                                       reg tableType isPrimary)))"
proof (intro conjI impI)
  assume "t_rows t \<noteq> []"
  then show "deleteTable d table_name = (Inl NotEmpty, d)"
    by (simp add: deleteTable_plain [OF assms])
next
  assume "t_rows t = [] \<and> referenced_by_other d table_name"
  then show "deleteTable d table_name = (Inl InternalError, d)"
    by (simp add: deleteTable_plain [OF assms])
next
  assume e: "t_rows t = [] \<and> \<not> referenced_by_other d table_name"
  then have dt: "deleteTable d table_name = (Inr (), AList.delete table_name d)"
    by (simp add: deleteTable_plain [OF assms])
  show "fst (deleteTable d table_name) = Inr ()" by (simp add: dt)
  show "table_name \<notin> fst ` set (snd (deleteTable d table_name))"
    by (simp add: dt delete_notin_dom)
  show "\<forall>n. n \<noteq> table_name \<longrightarrow> map_of (snd (deleteTable d table_name)) n = map_of d n"
    by (simp add: dt)
  show "\<forall>reg tableType isPrimary.
          table_name \<notin> listed (listTables (snd (deleteTable d table_name)) reg tableType isPrimary)"
  proof (intro allI)
    fix reg tableType isPrimary
    have "listed (listTables (AList.delete table_name d) reg tableType isPrimary)
            \<subseteq> fst ` set (AList.delete table_name d)"
      by (rule listed_subset)
    with delete_notin_dom [of table_name d]
    have "table_name \<notin> listed (listTables (AList.delete table_name d) reg tableType isPrimary)"
      by blast
    then show "table_name \<notin> listed (listTables (snd (deleteTable d table_name))
                                        reg tableType isPrimary)"
      by (simp add: dt)
  qed
qed

theorem deleteTable_lower_case_name_witness:
  "deleteTable [(''provider_a'', provider_a []),
                (''provider_c'', provider_a [[(''id'', VInt 1), (''name'', VStr ''x'')]])]
     ''provider_c''
     = (Inl NotEmpty,
        [(''provider_a'', provider_a []),
         (''provider_c'', provider_a [[(''id'', VInt 1), (''name'', VStr ''x'')]])])
   \<and> deleteTable [(''provider_a'', provider_a []),
                  (''provider_c'', provider_a [[(''id'', VInt 1), (''name'', VStr ''x'')]])]
       ''provider_a''
     = (Inr (), [(''provider_c'', provider_a [[(''id'', VInt 1), (''name'', VStr ''x'')]])])
   \<and> listTables (snd (deleteTable [(''provider_a'', provider_a []),
                  (''provider_c'', provider_a [[(''id'', VInt 1), (''name'', VStr ''x'')]])]
                  ''provider_a'')) [] (Some ''provider'') None
     = Inr [(''provider_c'', False)]
   \<and> deleteTable [(''provider_a'', provider_a []), (''provider_b'', provider_b)] ''provider_a''
     = (Inl InternalError, [(''provider_a'', provider_a []), (''provider_b'', provider_b)])"
proof -
  let ?c = "provider_a [[(''id'', VInt 1), (''name'', VStr ''x'')]]"
  let ?d = "[(''provider_a'', provider_a []), (''provider_c'', ?c)]"
  let ?e = "[(''provider_a'', provider_a []), (''provider_b'', provider_b)]"
  have pa: "plain_identifier ''provider_a''" and la: "toLowerCase ''provider_a'' = ''provider_a''"
    and pc: "plain_identifier ''provider_c''" and lc: "toLowerCase ''provider_c'' = ''provider_c''"
    by code_simp+
  have ma: "map_of ?d ''provider_a'' = Some (provider_a [])"
    and mc: "map_of ?d ''provider_c'' = Some ?c"
    and me: "map_of ?e ''provider_a'' = Some (provider_a [])"
    by simp_all
  have rc: "t_rows ?c \<noteq> []" and ra: "t_rows (provider_a []) = []"
    by (simp_all add: provider_a_def)
  have nd: "\<not> referenced_by_other ?d ''provider_a''" and re: "referenced_by_other ?e ''provider_a''"
    by code_simp+
  have da: "deleteTable ?d ''provider_a'' = (Inr (), [(''provider_c'', ?c)])"
    and li: "listTables [(''provider_c'', ?c)] [] (Some ''provider'') None
               = Inr [(''provider_c'', False)]"
    by code_simp+
  from deleteTable_lower_case_name [OF pc lc mc] rc
  have 1: "deleteTable ?d ''provider_c'' = (Inl NotEmpty, ?d)" by blast
  from deleteTable_lower_case_name [OF pa la ma] ra nd
  have 2: "fst (deleteTable ?d ''provider_a'') = Inr ()" by blast
  from deleteTable_lower_case_name [OF pa la me] ra re
  have 3: "deleteTable ?e ''provider_a'' = (Inl InternalError, ?e)" by blast
  from 1 2 3 da li show ?thesis by simp
qed

subsection \<open>editTable: deleting columns\<close>

text \<open>
  Claim C6, as stated, fails. The claim gives every listed column its own error: a column
  with a non-null value makes the call fail with \<open>ColumnHasData\<close>, a column in a foreign-key
  constraint makes it fail with \<open>ColumnHasForeignKey\<close>. The loop answers with the error of
  the first check that refuses. The column \<open>ref_id\<close> below is a foreign key and holds a
  value: the call fails with \<open>ColumnHasData\<close>, not \<open>ColumnHasForeignKey\<close>. And with
  \<open>alt_id\<close> (a foreign key without values) listed before \<open>note\<close> (which holds a value) the
  call fails with \<open>ColumnHasForeignKey\<close>, not \<open>ColumnHasData\<close>.
\<close>

theorem editTable_error_is_that_of_first_refused_column:
  "fst (editTable item_store ''provider_item'' (only_delete [''ref_id''])) = Inl ColumnHasData
   \<and> has_key item_store ''provider_item'' ''ref_id''
   \<and> fst (editTable item_store ''provider_item'' (only_delete [''alt_id'', ''note'']))
       = Inl ColumnHasForeignKey
   \<and> has_data item_store ''provider_item'' ''note''"
  by code_simp

lemma map_of_update_same: "map_of (AList.update k v al) k = Some v"
  by (simp add: update_conv')

lemma set_update_cases:
  "(n, v') \<in> set (AList.update k v al) \<Longrightarrow> (n, v') \<in> set al \<or> (n = k \<and> v' = v)"
  by (induction al) (auto split: if_splits)

lemma column_referencedI:
  "(n, tb) \<in> set d \<Longrightarrow> k \<in> set (t_keys tb) \<Longrightarrow> is_foreign_key k \<Longrightarrow>
   k_ref_table k = table_name \<Longrightarrow> k_ref_column k = c \<Longrightarrow> column_referenced d table_name c"
  unfolding column_referenced_def list_ex_iff by force

lemma cell_delete_other: "c \<noteq> x \<Longrightarrow> cell (AList.delete x r) c = cell r c"
  by (simp add: cell_def)

lemma cell_update_other: "c \<noteq> x \<Longrightarrow> cell (AList.update x v r) c = cell r c"
  by (simp add: cell_def update_conv')

lemma removeColumn_table:
  assumes "qi_removeColumn d table_name x = Some d'"
  obtains t where "map_of d table_name = Some t" and "has_column t x"
    and "\<not> column_referenced d table_name x"
    and "d' = AList.update table_name
                 (t\<lparr>t_cols := filter (\<lambda>c. col_name c \<noteq> x) (t_cols t),
                    t_keys := filter (\<lambda>k. k_column k \<noteq> x) (t_keys t),
                    t_rows := map (AList.delete x) (t_rows t)\<rparr>) d"
  using assms by (auto simp: qi_removeColumn_def split: option.splits if_splits)

lemma removeColumn_exists:
  assumes "qi_removeColumn d table_name x = Some d'"
  shows "col_exists d' table_name c \<longleftrightarrow> col_exists d table_name c \<and> c \<noteq> x"
  using assms
  by (elim removeColumn_table)
     (auto simp: col_exists_def has_column_def col_names_def update_conv')

lemma removeColumn_data:
  assumes "qi_removeColumn d table_name x = Some d'" and "c \<noteq> x"
  shows "has_data d' table_name c = has_data d table_name c"
proof -
  from assms(1) obtain t where t: "map_of d table_name = Some t"
    and d': "d' = AList.update table_name
                 (t\<lparr>t_cols := filter (\<lambda>c. col_name c \<noteq> x) (t_cols t),
                    t_keys := filter (\<lambda>k. k_column k \<noteq> x) (t_keys t),
                    t_rows := map (AList.delete x) (t_rows t)\<rparr>) d"
    by (elim removeColumn_table)
  have "filter (\<lambda>r. cell r c \<noteq> VNull) (map (AList.delete x) (t_rows t))
        = map (AList.delete x) (filter (\<lambda>r. cell r c \<noteq> VNull) (t_rows t))"
    using assms(2) by (simp add: filter_map o_def cell_delete_other)
  then show ?thesis
    by (simp add: has_data_def t d' update_conv' count_not_null_def)
qed

lemma removeColumn_key:
  assumes "qi_removeColumn d table_name x = Some d'" and "c \<noteq> x"
  shows "has_key d' table_name c = has_key d table_name c"
proof -
  from assms(1) obtain t where t: "map_of d table_name = Some t"
    and d': "d' = AList.update table_name
                 (t\<lparr>t_cols := filter (\<lambda>c. col_name c \<noteq> x) (t_cols t),
                    t_keys := filter (\<lambda>k. k_column k \<noteq> x) (t_keys t),
                    t_rows := map (AList.delete x) (t_rows t)\<rparr>) d"
    by (elim removeColumn_table)
  have "filter (\<lambda>k. k_column k = c) (filter (\<lambda>k. k_column k \<noteq> x) (t_keys t))
        = filter (\<lambda>k. k_column k = c) (t_keys t)"
    using assms(2) by (auto intro: filter_cong)
  then show ?thesis
    by (simp add: has_key_def t d' update_conv' key_column_usage_def)
qed

lemma removeColumn_refused:
  assumes "qi_removeColumn d table_name x = Some d'" and "c \<noteq> x"
  shows "refused d' table_name c = refused d table_name c"
  by (simp add: refused_def removeColumn_data [OF assms] removeColumn_key [OF assms])

lemma removeColumn_referenced:
  assumes "qi_removeColumn d table_name x = Some d'"
      and "column_referenced d' table_name c"
  shows "column_referenced d table_name c"
proof -
  from assms(1) obtain t where t: "map_of d table_name = Some t"
    and d': "d' = AList.update table_name
                 (t\<lparr>t_cols := filter (\<lambda>c. col_name c \<noteq> x) (t_cols t),
                    t_keys := filter (\<lambda>k. k_column k \<noteq> x) (t_keys t),
                    t_rows := map (AList.delete x) (t_rows t)\<rparr>) d"
    by (elim removeColumn_table)
  from assms(2) obtain n tb k where nt: "(n, tb) \<in> set d'" and k: "k \<in> set (t_keys tb)"
    and fk: "is_foreign_key k" "k_ref_table k = table_name" "k_ref_column k = c"
    by (auto simp: column_referenced_def list_ex_iff)
  from nt have "(n, tb) \<in> set d \<or> (n = table_name \<and>
        tb = t\<lparr>t_cols := filter (\<lambda>c. col_name c \<noteq> x) (t_cols t),
               t_keys := filter (\<lambda>k. k_column k \<noteq> x) (t_keys t),
               t_rows := map (AList.delete x) (t_rows t)\<rparr>)"
    unfolding d' by (auto dest: set_update_cases)
  then show ?thesis
  proof
    assume "(n, tb) \<in> set d"
    with k fk show ?thesis by (blast intro: column_referencedI)
  next
    assume a: "n = table_name \<and>
        tb = t\<lparr>t_cols := filter (\<lambda>c. col_name c \<noteq> x) (t_cols t),
               t_keys := filter (\<lambda>k. k_column k \<noteq> x) (t_keys t),
               t_rows := map (AList.delete x) (t_rows t)\<rparr>"
    with k have "k \<in> set (t_keys t)" by simp
    moreover from t have "(table_name, t) \<in> set d" by (rule map_of_SomeD)
    ultimately show ?thesis using fk by (blast intro: column_referencedI)
  qed
qed

lemma addColumn_keeps:
  assumes "qi_addColumn d table_name name a = Some d'" and "col_exists d table_name c"
  shows "col_exists d' table_name c"
    and "has_data d' table_name c = has_data d table_name c"
    and "has_key d table_name c \<Longrightarrow> has_key d' table_name c"
proof -
  from assms(1) obtain t where t: "map_of d table_name = Some t" and nc: "\<not> has_column t name"
    and d': "d' = AList.update table_name
                 (t\<lparr>t_cols := t_cols t @ [attr_column table_name (name, a)],
                    t_keys := t_keys t @ attr_keys table_name (name, a),
                    t_rows := map (\<lambda>r. AList.update name VNull r) (t_rows t)\<rparr>) d"
    by (auto simp: qi_addColumn_def split: option.splits if_splits)
  from assms(2) t have c: "has_column t c" by (simp add: col_exists_def)
  with nc have ne: "c \<noteq> name" by auto
  show "col_exists d' table_name c"
    using c by (simp add: col_exists_def d' update_conv' has_column_def col_names_def)
  have "filter (\<lambda>r. cell r c \<noteq> VNull) (map (\<lambda>r. AList.update name VNull r) (t_rows t))
        = map (\<lambda>r. AList.update name VNull r) (filter (\<lambda>r. cell r c \<noteq> VNull) (t_rows t))"
    using ne by (simp add: filter_map o_def cell_update_other)
  then show "has_data d' table_name c = has_data d table_name c"
    by (simp add: has_data_def t d' update_conv' count_not_null_def)
  show "has_key d table_name c \<Longrightarrow> has_key d' table_name c"
    by (simp add: has_key_def t d' update_conv' key_column_usage_def)
qed

lemma addColumn_guard:
  assumes "qi_addColumn d table_name name a = Some d'"
      and "col_exists d table_name c \<and> refused d table_name c"
  shows "col_exists d' table_name c \<and> refused d' table_name c"
  using addColumn_keeps [OF assms(1), of c] assms(2) by (auto simp: refused_def)

lemma add_columns_guard:
  "col_exists d table_name c \<and> refused d table_name c \<Longrightarrow>
   col_exists (snd (add_columns d table_name fs)) table_name c
   \<and> refused (snd (add_columns d table_name fs)) table_name c"
proof (induction fs arbitrary: d)
  case Nil
  then show ?case by simp
next
  case (Cons f fs)
  show ?case
    using Cons.prems Cons.IH addColumn_guard
    by (auto simp: Let_def split: option.splits)
qed

lemma delete_columns_guard:
  "col_exists d table_name c \<and> refused d table_name c \<Longrightarrow>
   col_exists (snd (delete_columns d table_name cs)) table_name c
   \<and> refused (snd (delete_columns d table_name cs)) table_name c"
proof (induction cs arbitrary: d)
  case Nil
  then show ?case by simp
next
  case (Cons x cs)
  show ?case
  proof (cases "map_of d table_name")
    case None
    with Cons.prems show ?thesis by simp
  next
    case (Some t)
    show ?thesis
    proof (cases "has_column t x \<and> \<not> count_not_null t x > 0
                  \<and> \<not> length (key_column_usage t x) > 0")
      case False
      with Some Cons.prems show ?thesis by (auto simp: Let_def)
    next
      case True
      then have nx: "\<not> refused d table_name x"
        using Some by (simp add: refused_def has_data_def has_key_def)
      with Cons.prems have ne: "c \<noteq> x" by auto
      show ?thesis
      proof (cases "qi_removeColumn d table_name x")
        case None
        with Some True Cons.prems show ?thesis by (simp add: Let_def)
      next
        case (Some d1)
        from removeColumn_exists [OF Some, of c] removeColumn_refused [OF Some ne] Cons.prems
        have "col_exists d1 table_name c \<and> refused d1 table_name c" using ne by simp
        from Cons.IH [OF this] show ?thesis
          using \<open>map_of d table_name = Some t\<close> True Some by (simp add: Let_def)
      qed
    qed
  qed
qed

lemma editTable_guard:
  assumes "col_exists d table_name c \<and> refused d table_name c"
  shows "col_exists (snd (editTable d table_name body)) table_name c"
proof (cases "nonempty (fieldsToEdit body)")
  case True
  with assms show ?thesis by (simp add: editTable_def)
next
  case False
  define d1 where "d1 = (if nonempty (fieldsToAdd body)
                         then snd (add_columns d table_name (the (fieldsToAdd body))) else d)"
  have g1: "col_exists d1 table_name c \<and> refused d1 table_name c"
    using assms add_columns_guard [OF assms] by (simp add: d1_def)
  have "snd (editTable d table_name body) = d1
        \<or> snd (editTable d table_name body)
           = snd (delete_columns d1 table_name (the (fieldsToDelete body)))"
    using False
    by (cases "add_columns d table_name (the (fieldsToAdd body))")
       (auto simp: editTable_def d1_def split: sum.splits)
  with g1 delete_columns_guard [OF g1] show ?thesis by auto
qed

lemma delete_columns_in_order:
  assumes "distinct cs"
      and "\<forall>c\<in>set cs. col_exists d table_name c
                      \<and> (column_referenced d table_name c \<longrightarrow> has_key d table_name c)"
  shows "fst (delete_columns d table_name cs) = first_refusal d table_name cs
       \<and> (\<forall>c. col_exists (snd (delete_columns d table_name cs)) table_name c
               \<longleftrightarrow> col_exists d table_name c
                   \<and> c \<notin> set (dropped_before d table_name cs))"
  using assms
proof (induction cs arbitrary: d)
  case Nil
  then show ?case by (simp add: first_refusal_def dropped_before_def)
next
  case (Cons x cs)
  from Cons.prems obtain t where t: "map_of d table_name = Some t" and hx: "has_column t x"
    by (auto simp: col_exists_def split: option.splits)
  show ?case
  proof (cases "refused d table_name x")
    case True
    then show ?thesis
      using t hx
      by (auto simp: first_refusal_def dropped_before_def refused_def has_data_def
            has_key_def Let_def)
  next
    case False
    then have nd: "\<not> count_not_null t x > 0" and nk: "\<not> length (key_column_usage t x) > 0"
      using t by (simp_all add: refused_def has_data_def has_key_def)
    from False Cons.prems have "\<not> column_referenced d table_name x"
      by (auto simp: refused_def)
    with t hx obtain d1 where d1: "qi_removeColumn d table_name x = Some d1"
      by (auto simp: qi_removeColumn_def)
    have step: "delete_columns d table_name (x # cs) = delete_columns d1 table_name cs"
      using t hx nd nk d1 by (simp add: Let_def)
    have ne: "c \<noteq> x" if "c \<in> set cs" for c using that Cons.prems(1) by auto
    have same: "refused d1 table_name c = refused d table_name c" if "c \<in> set cs" for c
      using removeColumn_refused [OF d1 ne [OF that]] .
    have pre: "\<forall>c\<in>set cs. col_exists d1 table_name c
                 \<and> (column_referenced d1 table_name c \<longrightarrow> has_key d1 table_name c)"
    proof
      fix c assume c: "c \<in> set cs"
      with Cons.prems(2) have e: "col_exists d table_name c"
        and r: "column_referenced d table_name c \<longrightarrow> has_key d table_name c"
        by auto
      from removeColumn_exists [OF d1, of c] e ne [OF c]
      have "col_exists d1 table_name c" by simp
      moreover have "has_key d1 table_name c" if "column_referenced d1 table_name c"
        using removeColumn_referenced [OF d1 that] r removeColumn_key [OF d1 ne [OF c]]
        by simp
      ultimately show "col_exists d1 table_name c
                 \<and> (column_referenced d1 table_name c \<longrightarrow> has_key d1 table_name c)"
        by blast
    qed
    from Cons.prems(1) have dist: "distinct cs" by simp
    note IH = Cons.IH [OF dist pre]
    have f: "find (refused d1 table_name) cs = find (refused d table_name) cs"
      by (rule find_cong) (auto simp: same)
    have hd_eq: "has_data d1 table_name c = has_data d table_name c" if "c \<in> set cs" for c
      using removeColumn_data [OF d1 ne [OF that]] .
    have fr: "first_refusal d1 table_name cs = first_refusal d table_name (x # cs)"
    proof (cases "find (refused d table_name) cs")
      case None
      then show ?thesis using False f by (simp add: first_refusal_def)
    next
      case (Some c)
      then have "c \<in> set cs" by (auto simp: find_Some_iff)
      with Some show ?thesis using False f hd_eq by (simp add: first_refusal_def)
    qed
    have tw: "dropped_before d1 table_name cs = dropped_before d table_name cs"
      unfolding dropped_before_def by (rule takeWhile_cong) (auto simp: same)
    have db: "dropped_before d table_name (x # cs) = x # dropped_before d table_name cs"
      using False by (simp add: dropped_before_def)
    show ?thesis
      unfolding step
      using IH fr removeColumn_exists [OF d1] by (auto simp: tw db)
  qed
qed

text \<open>
  Claim C6, amended. The names being made of letters, digits and underscores: a column that
  holds a non-null value or has a row in \<open>key_column_usage\<close> (a primary, unique or foreign
  key) is never dropped by \<open>editTable\<close>, whatever the request. For a request that only
  deletes, of distinct columns of the table (a column that a foreign key references
  carrying a key, as the engine requires): the columns are taken in order, the call fails
  at the first column that holds a non-null value (\<open>ColumnHasData\<close>) or else has a key
  (\<open>ColumnHasForeignKey\<close>), the columns before it are dropped and no other; when no listed
  column is refused the call succeeds and all of them are dropped.
\<close>

theorem editTable_deletes_in_order:
  assumes "simple_identifier table_name"
      and "list_all simple_identifier (to_delete body)"
  shows "(\<forall>c. col_exists d table_name c \<and> refused d table_name c
              \<longrightarrow> col_exists (snd (editTable d table_name body)) table_name c)
       \<and> (\<not> nonempty (fieldsToEdit body) \<and> \<not> nonempty (fieldsToAdd body)
          \<and> distinct (to_delete body)
          \<and> (\<forall>c\<in>set (to_delete body).
                 col_exists d table_name c
                 \<and> (column_referenced d table_name c \<longrightarrow> has_key d table_name c))
          \<longrightarrow> fst (editTable d table_name body) = first_refusal d table_name (to_delete body)
              \<and> (\<forall>c. col_exists (snd (editTable d table_name body)) table_name c
                      \<longleftrightarrow> col_exists d table_name c
                          \<and> c \<notin> set (dropped_before d table_name (to_delete body))))"
proof (intro conjI allI impI)
  fix c assume "col_exists d table_name c \<and> refused d table_name c"
  then show "col_exists (snd (editTable d table_name body)) table_name c"
    by (rule editTable_guard)
next
  assume a: "\<not> nonempty (fieldsToEdit body) \<and> \<not> nonempty (fieldsToAdd body)
          \<and> distinct (to_delete body)
          \<and> (\<forall>c\<in>set (to_delete body).
                 col_exists d table_name c
                 \<and> (column_referenced d table_name c \<longrightarrow> has_key d table_name c))"
  have e: "editTable d table_name body = delete_columns d table_name (to_delete body)"
    using a
    by (cases "fieldsToDelete body"; cases "the (fieldsToDelete body)")
       (auto simp: editTable_def to_delete_def nonempty_def)
  from a have "distinct (to_delete body)"
    and "\<forall>c\<in>set (to_delete body). col_exists d table_name c
           \<and> (column_referenced d table_name c \<longrightarrow> has_key d table_name c)"
    by blast+
  from delete_columns_in_order [OF this]
  show "fst (editTable d table_name body) = first_refusal d table_name (to_delete body)"
    and "\<And>c. col_exists (snd (editTable d table_name body)) table_name c
           \<longleftrightarrow> col_exists d table_name c
               \<and> c \<notin> set (dropped_before d table_name (to_delete body))"
    unfolding e by blast+
qed

theorem editTable_deletes_in_order_witness:
  "fst (editTable item_store ''provider_item'' (only_delete [''extra'', ''alt_id'', ''note'']))
     = Inl ColumnHasForeignKey
   \<and> col_exists (snd (editTable item_store ''provider_item''
                         (only_delete [''extra'', ''alt_id'', ''note''])))
        ''provider_item'' ''note''
   \<and> \<not> col_exists (snd (editTable item_store ''provider_item''
                           (only_delete [''extra'', ''alt_id'', ''note''])))
          ''provider_item'' ''extra''"
proof -
  let ?b = "only_delete [''extra'', ''alt_id'', ''note'']"
  have n: "simple_identifier ''provider_item''" "list_all simple_identifier (to_delete ?b)"
    by code_simp+
  have g: "col_exists item_store ''provider_item'' ''note''
           \<and> refused item_store ''provider_item'' ''note''"
    by code_simp
  have h: "\<not> nonempty (fieldsToEdit ?b) \<and> \<not> nonempty (fieldsToAdd ?b)
          \<and> distinct (to_delete ?b)
          \<and> (\<forall>c\<in>set (to_delete ?b).
                 col_exists item_store ''provider_item'' c
                 \<and> (column_referenced item_store ''provider_item'' c
                     \<longrightarrow> has_key item_store ''provider_item'' c))"
    by code_simp
  have f: "first_refusal item_store ''provider_item'' (to_delete ?b) = Inl ColumnHasForeignKey"
    and x: "col_exists item_store ''provider_item'' ''extra''"
           "''extra'' \<in> set (dropped_before item_store ''provider_item'' (to_delete ?b))"
    by code_simp+
  note t = editTable_deletes_in_order [OF n, of item_store]
  from t g have 1: "col_exists (snd (editTable item_store ''provider_item'' ?b))
                      ''provider_item'' ''note''"
    by blast
  from t h f have 2: "fst (editTable item_store ''provider_item'' ?b) = Inl ColumnHasForeignKey"
    by simp
  from t h x have 3: "\<not> col_exists (snd (editTable item_store ''provider_item'' ?b))
                          ''provider_item'' ''extra''"
    by blast
  from 1 2 3 show ?thesis by blast
qed

subsection \<open>Names without an allowed prefix\<close>

text \<open>
  Claim C1. The claim is that every record or schema endpoint rejects a table name that has
  none of the three prefixes before any statement runs, \<open>deleteTable\<close>, \<open>editTable\<close> and
  \<open>getTableRecordById\<close> in particular. These three controllers make no check on the name:
  on the table \<open>users\<close>, \<open>deleteTable\<close> drops it, \<open>editTable\<close> drops its column \<open>email\<close>, and
  \<open>getTableRecordById\<close> returns its row.
\<close>

theorem unprefixed_name_reaches_the_store:
  "\<not> allowed_prefix ''users''
   \<and> deleteTable [(''users'', users)] ''users'' = (Inr (), [])
   \<and> fst (editTable [(''users'', users)] ''users''
            \<lparr>fieldsToAdd = None, fieldsToDelete = Some [''email''], fieldsToEdit = None\<rparr>)
       = Inr ()
   \<and> col_names (the (map_of (snd (editTable [(''users'', users)] ''users''
            \<lparr>fieldsToAdd = None, fieldsToDelete = Some [''email''], fieldsToEdit = None\<rparr>))
          ''users'')) = [''id'']
   \<and> fst (getTableRecordById
            [(''users'', users\<lparr>t_rows := [[(''id'', VInt 1), (''email'', VStr ''a@b'')]]\<rparr>)]
            [] ''users'' 1)
       = Inr ([(''id'', VInt 1), (''email'', VStr ''a@b'')], [(''id'', [(VInt 1, VStr ''a@b'')])])"
  by code_simp

subsection \<open>createTable\<close>

text \<open>
  Claim C5. The claim is that a successful \<open>createTable\<close> leaves a table with an
  auto-increment integer primary key \<open>id\<close> plus exactly the requested columns. The
  controller starts \<open>columns\<close> with that \<open>id\<close> and then assigns \<open>columns[field.name]\<close> for
  every requested field without looking at the name: a requested field named \<open>id\<close> takes the
  place of the key. The request below succeeds, and the table it creates has a nullable
  text column \<open>id\<close>, no sequence default and no primary key.
\<close>

theorem createTable_field_named_id_replaces_key:
  "createTable [] [] (Some ''provider_x'')
     (Some [\<lparr>f_name = Some ''id'', f_type = Some ''TEXT'', f_allow_null = None,
             f_relatedTable = None, f_relatedColumn = None\<rparr>])
   = (Inr (),
      [(''provider_x'', \<lparr>t_cols = [\<lparr>col_name = ''id'', col_type = ''text'',
                                      col_nullable = True, col_default = None\<rparr>],
                         t_keys = [], t_rows = [], t_seq = 1\<rparr>)],
      [(''provider_x'', False)])"
  by code_simp

section \<open>Properties of the file controllers\<close>

subsection \<open>uploadFile\<close>

text \<open>
  Claim C2. The claim is that for a table whose name starts with \<open>pi_\<close> the row persisted
  for an upload stores the path \<open>/uploads/inscription_caracterizacion/<caracterizacion_id>/<filename>\<close>.
  The controller copies the file into that directory, but builds the persisted path from
  \<open>table_name\<close>: for \<open>pi_plan\<close>, characterization 5 and \<open>a.pdf\<close> the file lies at
  \<open>/var/data/uploads/inscription_caracterizacion/5/a.pdf\<close> and the row stores
  \<open>/uploads/pi_plan/5/a.pdf\<close>.
\<close>

theorem uploadFile_pi_row_names_the_pi_table:
  "uploadFile [''/tmp/up1''] [] ''pi_plan'' ''7''
     (Some \<lparr>originalname = ''a.pdf'', tmp_path = ''/tmp/up1''\<rparr>) None (Some ''5'') None
   = (Inr \<lparr>fr_record_id = ''5'', fr_table_name = ''pi_plan'', fr_name = ''a.pdf'',
           fr_file_path = ''/uploads/pi_plan/5/a.pdf'', fr_source = ''unknown''\<rparr>,
      [''/var/data/uploads/inscription_caracterizacion/5/a.pdf''],
      [\<lparr>fr_record_id = ''5'', fr_table_name = ''pi_plan'', fr_name = ''a.pdf'',
         fr_file_path = ''/uploads/pi_plan/5/a.pdf'', fr_source = ''unknown''\<rparr>])"
  by code_simp

subsection \<open>uploadCsv\<close>

text \<open>
  Claim C9. The claim is that the temporary file of a CSV import is deleted on every path.
  The controller deletes it in the \<open>finally\<close> of the insertion only; the two early returns
  (table missing, no columns found) leave it on disk. Below, the import into a missing table
  and into a table without columns answer \<open>NotFound\<close> with \<open>/tmp/csv1\<close> still there.
\<close>

theorem uploadCsv_early_return_leaves_file:
  "uploadCsv (\<lambda>d t rs. Some d) [] [] [''/tmp/csv1''] ''provider_a''
     (Some \<lparr>csv_path = ''/tmp/csv1'', csv_data = [[(''name'', ''x'')]]\<rparr>)
   = (Inl NotFound, [], [], [''/tmp/csv1''])
   \<and> uploadCsv (\<lambda>d t rs. Some d)
       [(''provider_a'', \<lparr>t_cols = [], t_keys = [], t_rows = [], t_seq = 1\<rparr>)] []
       [''/tmp/csv1''] ''provider_a''
       (Some \<lparr>csv_path = ''/tmp/csv1'', csv_data = [[(''name'', ''x'')]]\<rparr>)
     = (Inl NotFound, [(''provider_a'', \<lparr>t_cols = [], t_keys = [], t_rows = [], t_seq = 1\<rparr>)],
        [], [''/tmp/csv1''])"
  by code_simp

section \<open>Properties of the record accessor\<close>

subsection \<open>getTableRecords\<close>








subsection \<open>updateTableRecord and updatePiRecord\<close>


lemma ident_part_ascii: "ident_part c \<Longrightarrow> (of_char c :: nat) < 128"
  by (auto simp: ident_part_def ident_start_def Let_def)

lemma simple_identifier_ascii: "simple_identifier s \<Longrightarrow> ascii s"
  unfolding simple_identifier_def ascii_def list_all_iff
  using ident_part_ascii by blast

lemma concat_sole:
  "distinct (map fst d) \<Longrightarrow>
   \<forall>nt\<in>set d. toLowerCase (fst nt) = toLowerCase table_name \<longrightarrow> fst nt = table_name \<Longrightarrow>
   concat (map (\<lambda>nt. if toLowerCase (fst nt) = toLowerCase table_name
                      then t_cols (snd nt) else []) d)
   = (case map_of d table_name of None \<Rightarrow> [] | Some t \<Rightarrow> t_cols t)"
proof (induction d)
  case Nil
  show ?case by simp
next
  case (Cons a d)
  obtain n x where a: "a = (n, x)" by (cases a)
  have dist: "distinct (map fst d)" and nin: "n \<notin> fst ` set d"
    using Cons.prems(1) by (simp_all add: a)
  have sole: "\<forall>nt\<in>set d. toLowerCase (fst nt) = toLowerCase table_name \<longrightarrow> fst nt = table_name"
    using Cons.prems(2) by simp
  have ih: "concat (map (\<lambda>nt. if toLowerCase (fst nt) = toLowerCase table_name
                      then t_cols (snd nt) else []) d)
            = (case map_of d table_name of None \<Rightarrow> [] | Some t \<Rightarrow> t_cols t)"
    by (rule Cons.IH [OF dist sole])
  show ?case
  proof (cases "n = table_name")
    case True
    have "map_of d table_name = None"
      using nin True by (simp add: map_of_eq_None_iff)
    then show ?thesis using ih True by (simp add: a)
  next
    case False
    have "toLowerCase n \<noteq> toLowerCase table_name"
      using Cons.prems(2) False by (auto simp: a)
    then show ?thesis using ih False by (simp add: a)
  qed
qed

lemma columns_ci_sole:
  assumes "sole_name d table_name" "simple_identifier table_name" "map_of d table_name = Some t"
  shows "columns_ci d table_name = t_cols t"
proof -
  have d: "distinct (map fst d)" and a: "list_all (\<lambda>nt. ascii (fst nt)) d"
    and s: "\<forall>nt\<in>set d. toLowerCase (fst nt) = toLowerCase table_name \<longrightarrow> fst nt = table_name"
    using assms(1) unfolding sole_name_def list_all_iff by blast+
  have "columns_ci d table_name =
        concat (map (\<lambda>nt. if toLowerCase (fst nt) = toLowerCase table_name
                      then t_cols (snd nt) else []) d)"
    using a simple_identifier_ascii [OF assms(2)] by (simp add: columns_ci_def)
  also have "\<dots> = (case map_of d table_name of None \<Rightarrow> [] | Some t \<Rightarrow> t_cols t)"
    by (rule concat_sole [OF d s])
  finally show ?thesis by (simp add: assms(3))
qed

lemma map_of_written:
  "map_of (written t fd) c = map_option (\<lambda>v. stored (bound (type_of t c) v)) (map_of fd c)"
  by (induction fd) (auto simp: written_def values_of_def readings_def)

lemma cell_merge_written:
  "cell (AList.merge x (written t fd)) c =
     (case map_of fd c of None \<Rightarrow> cell x c | Some v \<Rightarrow> stored (bound (type_of t c) v))"
  by (simp add: cell_def merge_conv' map_add_def map_of_written split: option.splits)


lemma sql_update_sure:
  assumes t: "map_of d table_name = Some t"
      and cols: "has_column t ''id''" "list_all (has_column t) (map fst fd)"
      and sure: "surely_read d table_name t fd"
      and key: "bound (type_of t ''id'') idv = Stored key"
  shows "sql_update accepts d table_name fd idv =
           (if refuses t fd then None
            else if accepts table_name (written t fd) (update_rows t key fd)
            then Some (map (\<lambda>r. AList.merge r (written t fd)) (rows_with t key),
                       AList.update table_name (t\<lparr>t_rows := update_rows t key fd\<rparr>) d)
            else None)"
proof -
  have r: "list_ex (\<lambda>kr. snd kr = Refused) (readings bound t (fd @ [(''id'', idv)])) = refuses t fd"
    by (simp add: readings_def refuses_def list_ex_iff key)
  have u: "\<not> list_ex (\<lambda>kr. snd kr = Unsure) (readings bound t (fd @ [(''id'', idv)]))"
    using sure by (auto simp: readings_def list_ex_iff key surely_read_def list_all_iff)
  have f: "\<not> list_ex (column_referenced d table_name) (map fst fd)"
    using sure by (auto simp: list_ex_iff surely_read_def list_all_iff)
  show ?thesis
    unfolding sql_update_def
    by (simp only: t option.case cols r u f key stored.simps Let_def written_def [symmetric]
          update_rows_def [symmetric] rows_with_def [symmetric] simp_thms if_True if_False)
qed





subsection \<open>createTableRecord\<close>

text \<open>
  Claim C3, as stated, fails. The claim is made for every body that contains a
  \<open>caracterizacion_id\<close>. The controller looks for a row of that key only when the value is
  truthy: with the value \<open>0\<close> (or \<open>false\<close>, or the empty text) it inserts at every call, and two
  calls leave two rows of that \<open>caracterizacion_id\<close>.
\<close>

theorem createTableRecord_falsy_key_inserts_twice:
  "createTableRecord always plan_store ''pi_plan''
      [(''caracterizacion_id'', VInt 0), (''rubro'', VStr ''a'')]
     = (Inr (Created [(''id'', VInt 4), (''caracterizacion_id'', VInt 0), (''rubro'', VStr ''a'')]),
        [(''inscription_caracterizacion'', caracterizaciones),
         (''pi_plan'', pi_plan (plan_rows @
            [[(''id'', VInt 4), (''caracterizacion_id'', VInt 0), (''rubro'', VStr ''a'')]]))])
   \<and> createTableRecord always
        [(''inscription_caracterizacion'', caracterizaciones),
         (''pi_plan'', pi_plan (plan_rows @
            [[(''id'', VInt 4), (''caracterizacion_id'', VInt 0), (''rubro'', VStr ''a'')]]))]
        ''pi_plan'' [(''caracterizacion_id'', VInt 0), (''rubro'', VStr ''b'')]
     = (Inr (Created [(''id'', VInt 5), (''caracterizacion_id'', VInt 0), (''rubro'', VStr ''b'')]),
        [(''inscription_caracterizacion'', caracterizaciones),
         (''pi_plan'', pi_plan (plan_rows @
            [[(''id'', VInt 4), (''caracterizacion_id'', VInt 0), (''rubro'', VStr ''a'')],
             [(''id'', VInt 5), (''caracterizacion_id'', VInt 0), (''rubro'', VStr ''b'')]]))])"
  by code_simp

lemma natural_key_carried:
  "carries table_name fd c p \<Longrightarrow> natural_key table_name fd = Some (key_of table_name c p)"
  by (auto simp: carries_def natural_key_def key_of_def)

lemma key_columns:
  assumes "carries table_name fd c p" "list_all (has_column t) (map fst fd)"
  shows "list_all (has_column t) (map fst (key_of table_name c p))"
proof -
  have m: "\<And>k v. map_of fd k = Some v \<Longrightarrow> has_column t k"
  proof -
    fix k v assume "map_of fd k = Some v"
    then have "(k, v) \<in> set fd" by (rule map_of_SomeD)
    then have "k \<in> set (map fst fd)" by force
    then show "has_column t k" using assms(2) unfolding list_all_iff by blast
  qed
  show ?thesis
    using assms(1) by (auto simp: carries_def key_of_def intro: m)
qed

lemma filtered_columns: "list_all (has_column t) (map fst (filtered t data))"
  by (simp add: filtered_def filter_data_def list_all_iff has_column_def)

lemma select_ids_sure:
  assumes t: "map_of d table_name = Some t"
      and cols: "has_column t ''id''" "list_all (has_column t) (map fst key)"
      and rd: "key_read t key"
  shows "select_ids d table_name key = Some (map (\<lambda>r. cell r ''id'') (matching t key))"
proof -
  have r: "\<not> list_ex (\<lambda>kr. snd kr = Refused) (readings literal t key)"
    using rd by (auto simp: readings_def list_ex_iff key_read_def list_all_iff)
  have u: "\<not> list_ex (\<lambda>kr. snd kr = Unsure) (readings literal t key)"
    using rd by (auto simp: readings_def list_ex_iff key_read_def list_all_iff)
  show ?thesis
    unfolding select_ids_def
    by (simp only: t option.case cols r u Let_def matching_def [symmetric] simp_thms if_True
          if_False)
qed

lemma sql_insert_sure:
  assumes t: "map_of d table_name = Some t"
      and ne: "fd \<noteq> []"
      and cols: "list_all (has_column t) (map fst fd)"
      and sure: "surely_read d table_name t fd"
      and nr: "\<not> refuses t fd"
      and pd: "plain_defaults t fd"
  shows "sql_insert accepts d table_name fd =
           (if accepts table_name (written t fd) (t_rows t @ [created t fd])
            then (Some (created t fd),
                  AList.update table_name
                    (t\<lparr>t_rows := t_rows t @ [created t fd], t_seq := next_seq t fd\<rparr>) d)
            else (None, AList.update table_name (t\<lparr>t_seq := next_seq t fd\<rparr>) d))"
proof -
  have r: "\<not> list_ex (\<lambda>kr. snd kr = Refused) (readings bound t fd)"
    using nr by (simp add: readings_def refuses_def list_ex_iff)
  have u: "\<not> list_ex (\<lambda>kr. snd kr = Unsure) (readings bound t fd)"
    using sure by (auto simp: readings_def list_ex_iff surely_read_def list_all_iff)
  show ?thesis
    unfolding sql_insert_def
    by (simp only: t option.case ne cols r u pd Let_def written_def [symmetric]
          created_def [symmetric] next_seq_def [symmetric] simp_thms if_True if_False)
qed

lemma createTableRecord_fields:
  assumes n: "simple_identifier table_name"
      and t: "map_of d table_name = Some t"
      and sole: "sole_name d table_name"
      and idc: "has_column t ''id''"
  shows "filter (\<lambda>n. n \<noteq> []) (map col_name (columns_ci d table_name))
           = filter (\<lambda>n. n \<noteq> []) (col_names t)"
    and "filter (\<lambda>n. n \<noteq> []) (col_names t) \<noteq> []"
proof -
  show "filter (\<lambda>n. n \<noteq> []) (map col_name (columns_ci d table_name))
           = filter (\<lambda>n. n \<noteq> []) (col_names t)"
    by (simp add: columns_ci_sole [OF sole n t] col_names_def)
  have "''id'' \<in> set (filter (\<lambda>n. n \<noteq> []) (col_names t))"
    using idc by (simp add: has_column_def)
  then show "filter (\<lambda>n. n \<noteq> []) (col_names t) \<noteq> []"
    by (metis empty_iff empty_set)
qed

lemma createTableRecord_insert:
  assumes pi: "startsWith table_name ''pi_''"
      and n: "simple_identifier table_name"
      and t: "map_of d table_name = Some t"
      and sole: "sole_name d table_name"
      and idc: "has_column t ''id''"
      and fd: "fd = filtered t data"
      and sure: "surely_read d table_name t fd"
      and nr: "\<not> refuses t fd"
      and pd: "plain_defaults t fd"
      and car: "carries table_name fd c p"
      and kr: "key_read t (key_of table_name c p)"
      and nomatch: "matching t (key_of table_name c p) = []"
  shows "createTableRecord accepts d table_name data =
           (if accepts table_name (written t fd) (t_rows t @ [created t fd])
            then (Inr (Created (created t fd)),
                  AList.update table_name
                    (t\<lparr>t_rows := t_rows t @ [created t fd], t_seq := next_seq t fd\<rparr>) d)
            else (Inl InternalError, AList.update table_name (t\<lparr>t_seq := next_seq t fd\<rparr>) d))"
proof -
  note f = createTableRecord_fields [OF n t sole idc]
  have cols: "list_all (has_column t) (map fst fd)"
    by (simp add: fd filtered_columns)
  have simple: "list_all simple_identifier (map fst fd)"
    using sure by (auto simp: surely_read_def list_all_iff)
  have ne: "fd \<noteq> []"
    using car by (auto simp: carries_def)
  have nk: "natural_key table_name fd = Some (key_of table_name c p)"
    by (rule natural_key_carried [OF car])
  have sel: "select_ids d table_name (key_of table_name c p) = Some []"
    using select_ids_sure [OF t idc key_columns [OF car cols] kr] by (simp add: nomatch)
  have ins: "insert_record accepts d table_name fd =
           (if accepts table_name (written t fd) (t_rows t @ [created t fd])
            then (Inr (Created (created t fd)),
                  AList.update table_name
                    (t\<lparr>t_rows := t_rows t @ [created t fd], t_seq := next_seq t fd\<rparr>) d)
            else (Inl InternalError, AList.update table_name (t\<lparr>t_seq := next_seq t fd\<rparr>) d))"
    by (simp add: insert_record_def sql_insert_sure [OF t ne cols sure nr pd])
  show ?thesis
    unfolding createTableRecord_def
    by (simp only: pi n f Let_def filtered_def [symmetric] fd [symmetric] simple nk sel
          option.case list.case ins simp_thms if_True if_False length_0_conv)
qed

lemma createTableRecord_update:
  assumes pi: "startsWith table_name ''pi_''"
      and n: "simple_identifier table_name"
      and t: "map_of d table_name = Some t"
      and sole: "sole_name d table_name"
      and idc: "has_column t ''id''"
      and fd: "fd = filtered t data"
      and sure: "surely_read d table_name t fd"
      and nr: "\<not> refuses t fd"
      and car: "carries table_name fd c p"
      and kr: "key_read t (key_of table_name c p)"
      and match: "matching t (key_of table_name c p) = [r]"
      and rid: "cell r ''id'' = VInt i" "int32 i" "type_of t ''id'' = ''integer''"
      and one: "rows_with t (VInt i) = [r]"
  shows "createTableRecord accepts d table_name data =
           (if accepts table_name (written t fd) (update_rows t (VInt i) fd)
            then (Inr (Updated (Some (AList.merge r (written t fd)))),
                  AList.update table_name (t\<lparr>t_rows := update_rows t (VInt i) fd\<rparr>) d)
            else (Inl InternalError, d))"
proof -
  note f = createTableRecord_fields [OF n t sole idc]
  have cols: "list_all (has_column t) (map fst fd)"
    by (simp add: fd filtered_columns)
  have simple: "list_all simple_identifier (map fst fd)"
    using sure by (auto simp: surely_read_def list_all_iff)
  have nk: "natural_key table_name fd = Some (key_of table_name c p)"
    by (rule natural_key_carried [OF car])
  have sel: "select_ids d table_name (key_of table_name c p) = Some [VInt i]"
    using select_ids_sure [OF t idc key_columns [OF car cols] kr] by (simp add: match rid)
  have b: "bound (type_of t ''id'') (VInt i) = Stored (VInt i)"
    by (simp add: rid)
  have upd: "sql_update accepts d table_name fd (VInt i) =
           (if accepts table_name (written t fd) (update_rows t (VInt i) fd)
            then Some ([AList.merge r (written t fd)],
                       AList.update table_name (t\<lparr>t_rows := update_rows t (VInt i) fd\<rparr>) d)
            else None)"
    by (simp add: sql_update_sure [OF t idc cols sure b] nr one)
  show ?thesis
    unfolding createTableRecord_def
    by (simp add: pi n f filtered_def [symmetric] fd [symmetric] simple nk sel upd
         del: not_Cons_self2)
qed

lemma new_row_cell:
  "map_of w k = Some x \<Longrightarrow> has_column t k \<Longrightarrow> cell (new_row t w) k = x"
proof -
  assume w: "map_of w k = Some x" and h: "has_column t k"
  have "\<And>cs. k \<in> set (map col_name cs) \<Longrightarrow>
          map_of (map (\<lambda>c. (col_name c,
                case map_of w (col_name c) of
                  Some v \<Rightarrow> v
                | None \<Rightarrow> (if from_sequence c then VInt (t_seq t) else VNull))) cs) k = Some x"
  proof -
    fix cs show "k \<in> set (map col_name cs) \<Longrightarrow>
          map_of (map (\<lambda>c. (col_name c,
                case map_of w (col_name c) of
                  Some v \<Rightarrow> v
                | None \<Rightarrow> (if from_sequence c then VInt (t_seq t) else VNull))) cs) k = Some x"
    proof (induction cs)
      case Nil
      then show ?case by simp
    next
      case (Cons a cs)
      then show ?case by (cases "col_name a = k") (simp_all add: w)
    qed
  qed
  then show ?thesis
    using h by (simp add: cell_def new_row_def has_column_def col_names_def)
qed

lemma created_cell:
  "map_of fd k = Some v \<Longrightarrow> has_column t k \<Longrightarrow>
   cell (created t fd) k = stored (bound (type_of t k) v)"
  unfolding created_def
  by (rule new_row_cell) (simp_all add: map_of_written)

lemma matches_key:
  assumes car: "carries table_name fd c p"
      and kr: "key_read t (key_of table_name c p)"
      and x: "\<And>k v. map_of fd k = Some v \<Longrightarrow> cell x k = stored (bound (type_of t k) v)"
  shows "list_all (\<lambda>kv. sql_eq (cell x (fst kv)) (snd kv))
           (values_of (readings literal t (key_of table_name c p)))"
proof -
  have one: "\<And>k v. map_of fd k = Some v \<Longrightarrow>
          literal (type_of t k) v = bound (type_of t k) v \<and>
          (case literal (type_of t k) v of Stored k \<Rightarrow> k \<noteq> VNull | Refused \<Rightarrow> False
           | Unsure \<Rightarrow> False) \<Longrightarrow>
          sql_eq (cell x k) (stored (literal (type_of t k) v))"
  proof -
    fix k v
    assume m: "map_of fd k = Some v"
      and l: "literal (type_of t k) v = bound (type_of t k) v \<and>
          (case literal (type_of t k) v of Stored k \<Rightarrow> k \<noteq> VNull | Refused \<Rightarrow> False
           | Unsure \<Rightarrow> False)"
    have l1: "bound (type_of t k) v = literal (type_of t k) v" using l by simp
    have l2: "case literal (type_of t k) v of Stored k \<Rightarrow> k \<noteq> VNull | Refused \<Rightarrow> False
           | Unsure \<Rightarrow> False" using l by blast
    obtain s where s: "literal (type_of t k) v = Stored s" "s \<noteq> VNull"
      using l2 by (cases "literal (type_of t k) v") simp_all
    have "cell x k = s" using x [OF m] by (simp add: l1 s)
    then show "sql_eq (cell x k) (stored (literal (type_of t k) v))"
      using s by (simp add: sql_eq_def)
  qed
  show ?thesis
  proof (cases "table_name = ''pi_formulacion''")
    case True
    then have m: "map_of fd ''caracterizacion_id'' = Some c" "map_of fd ''rel_id_prov'' = Some p"
      using car by (simp_all add: carries_def)
    have k: "literal (type_of t ''caracterizacion_id'') c = bound (type_of t ''caracterizacion_id'') c \<and>
          (case literal (type_of t ''caracterizacion_id'') c of Stored k \<Rightarrow> k \<noteq> VNull
           | Refused \<Rightarrow> False | Unsure \<Rightarrow> False)"
       "literal (type_of t ''rel_id_prov'') p = bound (type_of t ''rel_id_prov'') p \<and>
          (case literal (type_of t ''rel_id_prov'') p of Stored k \<Rightarrow> k \<noteq> VNull
           | Refused \<Rightarrow> False | Unsure \<Rightarrow> False)"
      using kr unfolding key_read_def key_of_def if_P [OF True] list.pred_inject fst_conv snd_conv
      by blast+
    have "sql_eq (cell x ''caracterizacion_id'')
            (stored (literal (type_of t ''caracterizacion_id'') c))"
      by (rule one [OF m(1) k(1)])
    moreover have "sql_eq (cell x ''rel_id_prov'') (stored (literal (type_of t ''rel_id_prov'') p))"
      by (rule one [OF m(2) k(2)])
    ultimately show ?thesis
      by (simp add: True key_of_def values_of_def readings_def)
  next
    case False
    then have m: "map_of fd ''caracterizacion_id'' = Some c"
      using car by (simp_all add: carries_def)
    have k: "literal (type_of t ''caracterizacion_id'') c = bound (type_of t ''caracterizacion_id'') c \<and>
          (case literal (type_of t ''caracterizacion_id'') c of Stored k \<Rightarrow> k \<noteq> VNull
           | Refused \<Rightarrow> False | Unsure \<Rightarrow> False)"
      using kr unfolding key_read_def key_of_def if_not_P [OF False] list.pred_inject fst_conv
        snd_conv
      by blast
    have "sql_eq (cell x ''caracterizacion_id'')
            (stored (literal (type_of t ''caracterizacion_id'') c))"
      by (rule one [OF m(1) k])
    then show ?thesis
      by (simp add: False key_of_def values_of_def readings_def)
  qed
qed

lemma column_referenced_update:
  "map_of d table_name = Some t \<Longrightarrow> t_keys t' = t_keys t \<Longrightarrow>
   column_referenced (AList.update table_name t' d) n c = column_referenced d n c"
  unfolding column_referenced_def
  by (induction d) auto

lemma sole_name_update:
  assumes "map_of d table_name = Some t" "sole_name d table_name"
  shows "sole_name (AList.update table_name t' d) table_name"
proof -
  have k: "table_name \<in> set (map fst d)"
    using assms(1) by (metis domI dom_map_of_conv_image_fst set_map)
  have m: "map fst (AList.update table_name t' d) = map fst d"
    using k by (simp add: update_keys)
  have old: "\<forall>y\<in>set d. ascii (fst y)
              \<and> (toLowerCase (fst y) = toLowerCase table_name \<longrightarrow> fst y = table_name)"
    using assms(2) unfolding sole_name_def list_all_iff by blast
  have "\<forall>x\<in>set (AList.update table_name t' d). ascii (fst x)
              \<and> (toLowerCase (fst x) = toLowerCase table_name \<longrightarrow> fst x = table_name)"
  proof
    fix x assume "x \<in> set (AList.update table_name t' d)"
    then have "fst x \<in> set (map fst (AList.update table_name t' d))" by simp
    then have "fst x \<in> set (map fst d)" by (simp only: m)
    then obtain y where "y \<in> set d" "fst y = fst x" by auto
    then show "ascii (fst x)
              \<and> (toLowerCase (fst x) = toLowerCase table_name \<longrightarrow> fst x = table_name)"
      using old by metis
  qed
  moreover have "distinct (map fst (AList.update table_name t' d))"
    using assms(2) by (simp only: m sole_name_def)
  ultimately show ?thesis
    unfolding sole_name_def list_all_iff by blast
qed

lemma update_twice: "AList.update k v (AList.update k w al) = AList.update k v al"
  by (induction al) auto

lemma filtered_member:
  "map_of (filtered t data) k = Some v \<Longrightarrow> has_column t k"
proof -
  assume "map_of (filtered t data) k = Some v"
  then have "(k, v) \<in> set (filtered t data)" by (rule map_of_SomeD)
  then show ?thesis by (auto simp: filtered_def filter_data_def has_column_def)
qed

lemma with_last_same:
  "type_of (with_last t fd r) = type_of t"
  "col_names (with_last t fd r) = col_names t"
  "has_column (with_last t fd r) = has_column t"
  "t_keys (with_last t fd r) = t_keys t"
  "t_rows (with_last t fd r) = t_rows t @ [r]"
  by (simp_all add: fun_eq_iff type_of_def col_names_def has_column_def with_last_def)

lemma with_last_reads:
  "written (with_last t fd r) = written t"
  "refuses (with_last t fd r) = refuses t"
  "key_read (with_last t fd r) = key_read t"
  "filtered (with_last t fd r) = filtered t"
  "readings literal (with_last t fd r) = readings literal t"
  by (simp_all add: fun_eq_iff written_def readings_def refuses_def key_read_def filtered_def
        with_last_same)

lemma matching_with_last:
  assumes "matching t key = []"
      and "list_all (\<lambda>kv. sql_eq (cell r (fst kv)) (snd kv)) (values_of (readings literal t key))"
  shows "matching (with_last t fd r) key = [r]"
  using assms by (simp add: matching_def with_last_same with_last_reads)

lemma rows_with_last:
  assumes ids: "integer_ids t (t_rows t @ [r])" and i: "cell r ''id'' = VInt i"
  shows "rows_with (with_last t fd r) (VInt i) = [r]"
    and "update_rows (with_last t fd r) (VInt i) fd2 = t_rows t @ [AList.merge r (written t fd2)]"
proof -
  have other: "\<And>x. x \<in> set (t_rows t) \<Longrightarrow> \<not> sql_eq (cell x ''id'') (VInt i)"
  proof
    fix x assume x: "x \<in> set (t_rows t)" and e: "sql_eq (cell x ''id'') (VInt i)"
    have "cell r ''id'' \<notin> (\<lambda>r. cell r ''id'') ` set (t_rows t)"
      using ids by (simp add: integer_ids_def)
    moreover have "cell x ''id'' = cell r ''id''"
      using e i by (simp add: sql_eq_def)
    ultimately show False using x by (metis imageI)
  qed
  have self: "sql_eq (cell r ''id'') (VInt i)"
    by (simp add: sql_eq_def i)
  have f: "filter (\<lambda>x. sql_eq (cell x ''id'') (VInt i)) (t_rows t) = []"
    using other by (simp add: filter_empty_conv)
  show "rows_with (with_last t fd r) (VInt i) = [r]"
    by (simp add: rows_with_def with_last_same f self)
  have m: "map (\<lambda>x. if sql_eq (cell x ''id'') (VInt i) then AList.merge x (written t fd2) else x)
             (t_rows t) = t_rows t"
    using other by (simp add: map_idI)
  show "update_rows (with_last t fd r) (VInt i) fd2 = t_rows t @ [AList.merge r (written t fd2)]"
    by (simp add: update_rows_def with_last_same with_last_reads m self cong: if_cong)
qed

text \<open>
  Claim C3, amended. On a \<open>pi_\<close> table whose name is made of letters, digits and underscores
  and is the only one of that name up to letter case, whose \<open>id\<close> is an integer key, for two
  bodies whose filtered fields the engine surely reads and does not refuse and that carry
  the same natural key with truthy values (\<open>caracterizacion_id\<close>, and for \<open>pi_formulacion\<close>
  the pair of \<open>caracterizacion_id\<close> and \<open>rel_id_prov\<close>): when no row matches the key and the
  engine accepts both outcomes, the first call inserts a new row made of its filtered
  fields, the second call updates that row, and afterwards exactly one row matches the
  key, in which every column the second body gives has what the column stores of the second
  body's value and every other column has what the first call left.
\<close>

theorem createTableRecord_twice_keeps_one_row:
  assumes pi: "startsWith table_name ''pi_''"
      and n: "simple_identifier table_name"
      and t: "map_of d table_name = Some t"
      and sole: "sole_name d table_name"
      and idc: "has_column t ''id''"
      and fd1: "fd1 = filtered t data1"
      and fd2: "fd2 = filtered t data2"
      and sure: "surely_read d table_name t fd1" "surely_read d table_name t fd2"
      and nr: "\<not> refuses t fd1" "\<not> refuses t fd2"
      and pd: "plain_defaults t fd1"
      and car: "carries table_name fd1 c p" "carries table_name fd2 c p"
      and kr: "key_read t (key_of table_name c p)"
      and nomatch: "matching t (key_of table_name c p) = []"
      and ids: "integer_ids t (t_rows t @ [created t fd1])"
      and acc: "accepts table_name (written t fd1) (t_rows t @ [created t fd1])"
               "accepts table_name (written t fd2) (t_rows t @ [overwritten t fd1 fd2])"
  shows "createTableRecord accepts d table_name data1 =
           (Inr (Created (created t fd1)),
            AList.update table_name (with_last t fd1 (created t fd1)) d)
       \<and> createTableRecord accepts
            (AList.update table_name (with_last t fd1 (created t fd1)) d) table_name data2 =
           (Inr (Updated (Some (overwritten t fd1 fd2))),
            AList.update table_name (with_last t fd1 (overwritten t fd1 fd2)) d)
       \<and> matching (with_last t fd1 (overwritten t fd1 fd2)) (key_of table_name c p)
           = [overwritten t fd1 fd2]
       \<and> (\<forall>k. cell (overwritten t fd1 fd2) k =
                (case map_of fd2 k of
                   None \<Rightarrow> cell (created t fd1) k
                 | Some v \<Rightarrow> stored (bound (type_of t k) v)))
       \<and> (\<forall>k v. map_of fd1 k = Some v \<longrightarrow>
                  cell (created t fd1) k = stored (bound (type_of t k) v))"
proof -
  let ?n = "created t fd1"
  let ?u = "overwritten t fd1 fd2"
  let ?t1 = "with_last t fd1 ?n"
  let ?d1 = "AList.update table_name ?t1 d"
  let ?key = "key_of table_name c p"
  have c1: "createTableRecord accepts d table_name data1 = (Inr (Created ?n), ?d1)"
    using createTableRecord_insert [OF pi n t sole idc fd1 sure(1) nr(1) pd car(1) kr nomatch,
        of accepts] acc(1)
    by (simp add: with_last_def)
  have cn: "\<And>k v. map_of fd1 k = Some v \<Longrightarrow> cell ?n k = stored (bound (type_of t k) v)"
    using created_cell filtered_member fd1 by blast
  have cu: "\<And>k. cell ?u k = (case map_of fd2 k of None \<Rightarrow> cell ?n k
                              | Some v \<Rightarrow> stored (bound (type_of t k) v))"
    by (simp add: overwritten_def cell_merge_written)
  have cu': "\<And>k v. map_of fd2 k = Some v \<Longrightarrow> cell ?u k = stored (bound (type_of t k) v)"
    by (simp add: cu)
  have m1: "matching ?t1 ?key = [?n]"
    by (rule matching_with_last [OF nomatch matches_key [OF car(1) kr cn]])
  have m2: "matching (with_last t fd1 ?u) ?key = [?u]"
    by (rule matching_with_last [OF nomatch matches_key [OF car(2) kr cu']])
  obtain i where i: "cell ?n ''id'' = VInt i" "int32 i"
    using ids by (auto simp: integer_ids_def split: val.splits)
  have ty: "type_of ?t1 ''id'' = ''integer''"
    using ids by (simp add: integer_ids_def with_last_same)
  have t1: "map_of ?d1 table_name = Some ?t1"
    by (simp add: update_conv')
  have sole1: "sole_name ?d1 table_name"
    by (rule sole_name_update [OF t sole])
  have idc1: "has_column ?t1 ''id''"
    by (simp add: with_last_same idc)
  have fd2': "fd2 = filtered ?t1 data2"
    by (simp add: with_last_reads fd2)
  have sure1: "surely_read ?d1 table_name ?t1 fd2"
    using sure(2)
    by (simp add: surely_read_def with_last_same column_referenced_update [OF t])
  have nr1: "\<not> refuses ?t1 fd2"
    by (simp add: with_last_reads nr)
  have kr1: "key_read ?t1 ?key"
    by (simp add: with_last_reads kr)
  note rw = rows_with_last [OF ids i(1), of fd1]
  have c2: "createTableRecord accepts ?d1 table_name data2 =
              (Inr (Updated (Some ?u)), AList.update table_name (with_last t fd1 ?u) d)"
  proof -
    have r: "with_last t fd1 ?n\<lparr>t_rows := t_rows t @ [?u]\<rparr> = with_last t fd1 ?u"
      by (simp add: with_last_def)
    show ?thesis
      using createTableRecord_update [OF pi n t1 sole1 idc1 fd2' sure1 nr1 car(2) kr1 m1 i ty
          rw(1), of accepts] acc(2)
      by (simp add: rw(2) with_last_reads overwritten_def [symmetric] update_twice r)
  qed
  show ?thesis
    using c1 c2 m2 cu cn by blast
qed

theorem createTableRecord_twice_keeps_one_row_witness:
  "createTableRecord always plan_store ''pi_plan''
      [(''caracterizacion_id'', VInt 7), (''rubro'', VStr ''a'')]
     = (Inr (Created [(''id'', VInt 4), (''caracterizacion_id'', VInt 7), (''rubro'', VStr ''a'')]),
        [(''inscription_caracterizacion'', caracterizaciones),
         (''pi_plan'', pi_plan (plan_rows @
            [[(''id'', VInt 4), (''caracterizacion_id'', VInt 7), (''rubro'', VStr ''a'')]]))])
   \<and> createTableRecord always
        [(''inscription_caracterizacion'', caracterizaciones),
         (''pi_plan'', pi_plan (plan_rows @
            [[(''id'', VInt 4), (''caracterizacion_id'', VInt 7), (''rubro'', VStr ''a'')]]))]
        ''pi_plan'' [(''rubro'', VStr ''b''), (''caracterizacion_id'', VInt 7)]
     = (Inr (Updated (Some
          [(''id'', VInt 4), (''caracterizacion_id'', VInt 7), (''rubro'', VStr ''b'')])),
        [(''inscription_caracterizacion'', caracterizaciones),
         (''pi_plan'', pi_plan (plan_rows @
            [[(''id'', VInt 4), (''caracterizacion_id'', VInt 7), (''rubro'', VStr ''b'')]]))])
   \<and> createTableRecord always [(''pi_formulacion'', pi_formulacion)] ''pi_formulacion''
        [(''caracterizacion_id'', VInt 7), (''rel_id_prov'', VInt 2), (''detalle'', VStr ''y'')]
     = (Inr (Created [(''id'', VInt 2), (''caracterizacion_id'', VInt 7),
                      (''rel_id_prov'', VInt 2), (''detalle'', VStr ''y'')]),
        [(''pi_formulacion'',
          pi_formulacion\<lparr>t_rows := t_rows pi_formulacion @
              [[(''id'', VInt 2), (''caracterizacion_id'', VInt 7),
                (''rel_id_prov'', VInt 2), (''detalle'', VStr ''y'')]],
            t_seq := 3\<rparr>)])"
proof -
  let ?t = "pi_plan plan_rows"
  let ?d1 = "[(''caracterizacion_id'', VInt 7), (''rubro'', VStr ''a'')]"
  let ?d2 = "[(''rubro'', VStr ''b''), (''caracterizacion_id'', VInt 7)]"
  have h: "startsWith ''pi_plan'' ''pi_''" "simple_identifier ''pi_plan''"
    "map_of plan_store ''pi_plan'' = Some ?t" "sole_name plan_store ''pi_plan''"
    "has_column ?t ''id''" "?d1 = filtered ?t ?d1" "?d2 = filtered ?t ?d2"
    "surely_read plan_store ''pi_plan'' ?t ?d1" "surely_read plan_store ''pi_plan'' ?t ?d2"
    "\<not> refuses ?t ?d1" "\<not> refuses ?t ?d2" "plain_defaults ?t ?d1"
    "carries ''pi_plan'' ?d1 (VInt 7) VNull" "carries ''pi_plan'' ?d2 (VInt 7) VNull"
    "key_read ?t (key_of ''pi_plan'' (VInt 7) VNull)"
    "matching ?t (key_of ''pi_plan'' (VInt 7) VNull) = []"
    "integer_ids ?t (t_rows ?t @ [created ?t ?d1])"
    "always ''pi_plan'' (written ?t ?d1) (t_rows ?t @ [created ?t ?d1])"
    "always ''pi_plan'' (written ?t ?d2) (t_rows ?t @ [overwritten ?t ?d1 ?d2])"
    by code_simp+
  have e: "created ?t ?d1 = [(''id'', VInt 4), (''caracterizacion_id'', VInt 7), (''rubro'', VStr ''a'')]"
    "overwritten ?t ?d1 ?d2 = [(''id'', VInt 4), (''caracterizacion_id'', VInt 7), (''rubro'', VStr ''b'')]"
    "AList.update ''pi_plan'' (with_last ?t ?d1
         [(''id'', VInt 4), (''caracterizacion_id'', VInt 7), (''rubro'', VStr ''a'')]) plan_store =
       [(''inscription_caracterizacion'', caracterizaciones),
         (''pi_plan'', pi_plan (plan_rows @
            [[(''id'', VInt 4), (''caracterizacion_id'', VInt 7), (''rubro'', VStr ''a'')]]))]"
    "AList.update ''pi_plan'' (with_last ?t ?d1
         [(''id'', VInt 4), (''caracterizacion_id'', VInt 7), (''rubro'', VStr ''b'')]) plan_store =
       [(''inscription_caracterizacion'', caracterizaciones),
         (''pi_plan'', pi_plan (plan_rows @
            [[(''id'', VInt 4), (''caracterizacion_id'', VInt 7), (''rubro'', VStr ''b'')]]))]"
    by code_simp+
  note a = createTableRecord_twice_keeps_one_row [where accepts = always, OF h, unfolded e]
  let ?f = "pi_formulacion"
  let ?b = "[(''caracterizacion_id'', VInt 7), (''rel_id_prov'', VInt 2), (''detalle'', VStr ''y'')]"
  have g: "startsWith ''pi_formulacion'' ''pi_''" "simple_identifier ''pi_formulacion''"
    "map_of [(''pi_formulacion'', ?f)] ''pi_formulacion'' = Some ?f"
    "sole_name [(''pi_formulacion'', ?f)] ''pi_formulacion''"
    "has_column ?f ''id''" "?b = filtered ?f ?b" "?b = filtered ?f ?b"
    "surely_read [(''pi_formulacion'', ?f)] ''pi_formulacion'' ?f ?b"
    "surely_read [(''pi_formulacion'', ?f)] ''pi_formulacion'' ?f ?b"
    "\<not> refuses ?f ?b" "\<not> refuses ?f ?b" "plain_defaults ?f ?b"
    "carries ''pi_formulacion'' ?b (VInt 7) (VInt 2)"
    "carries ''pi_formulacion'' ?b (VInt 7) (VInt 2)"
    "key_read ?f (key_of ''pi_formulacion'' (VInt 7) (VInt 2))"
    "matching ?f (key_of ''pi_formulacion'' (VInt 7) (VInt 2)) = []"
    "integer_ids ?f (t_rows ?f @ [created ?f ?b])"
    "always ''pi_formulacion'' (written ?f ?b) (t_rows ?f @ [created ?f ?b])"
    "always ''pi_formulacion'' (written ?f ?b) (t_rows ?f @ [overwritten ?f ?b ?b])"
    by code_simp+
  have k: "created ?f ?b = [(''id'', VInt 2), (''caracterizacion_id'', VInt 7),
                      (''rel_id_prov'', VInt 2), (''detalle'', VStr ''y'')]"
    "AList.update ''pi_formulacion'' (with_last ?f ?b
         [(''id'', VInt 2), (''caracterizacion_id'', VInt 7),
          (''rel_id_prov'', VInt 2), (''detalle'', VStr ''y'')]) [(''pi_formulacion'', ?f)]
      = [(''pi_formulacion'',
          pi_formulacion\<lparr>t_rows := t_rows pi_formulacion @
              [[(''id'', VInt 2), (''caracterizacion_id'', VInt 7),
                (''rel_id_prov'', VInt 2), (''detalle'', VStr ''y'')]],
            t_seq := 3\<rparr>)]"
    by code_simp+
  note b = createTableRecord_twice_keeps_one_row [where accepts = always, OF g, unfolded k]
  show ?thesis using a b by blast
qed

end
